theory Spec2Isabelle
  imports Complex_Main "HOL-Library.Word" "HOL-Library.Multiset"
begin

unbundle bit_operations_syntax

section \<open>The server-side map simulation of PanzerChasm (server/map.cpp)\<close>

text \<open>
  This theory embeds the parts of \<^verbatim>\<open>Map\<close> (src/PanzerChasm/server/map.cpp) that drive
  procedures, projectiles, mines and entity collision, and proves properties of them.

  Conventions of the embedding.
  \<^item> A C++ \<^verbatim>\<open>float\<close> is a \<^typ>\<open>real\<close>: comparisons, sums and products are the exact ones,
    rounding, infinities and NaN are not represented.
  \<^item> \<^verbatim>\<open>Time\<close> (time.hpp) is a \<^typ>\<open>real\<close> number of seconds, so \<^verbatim>\<open>ToSeconds\<close> and
    \<^verbatim>\<open>FromSeconds\<close> are the identity.
  \<^item> \<^verbatim>\<open>unsigned int\<close> values on which the source subtracts are \<^typ>\<open>32 word\<close>; counters
    and indices that are only compared are \<^typ>\<open>nat\<close>.
  \<^item> A failed \<^verbatim>\<open>PC_ASSERT\<close> is the result \<^term>\<open>None\<close> of an option-valued function.
  \<^item> Constants of \<^verbatim>\<open>GameConstants\<close> (game_constants.hpp) are fields of the record
    \<open>GameConstants\<close>, passed as a parameter.
\<close>

subsection \<open>Vectors (vec.hpp)\<close>

type_synonym Time = real

datatype m_Vec2 = m_Vec2 (x2: real) (y2: real)

datatype m_Vec3 = m_Vec3 (x3: real) (y3: real) (z3: real)

definition xy :: "m_Vec3 \<Rightarrow> m_Vec2" where
  "xy v = m_Vec2 (x3 v) (y3 v)"

definition Vec3_of :: "m_Vec2 \<Rightarrow> real \<Rightarrow> m_Vec3" where
  "Vec3_of v z = m_Vec3 (x2 v) (y2 v) z"

definition add2 :: "m_Vec2 \<Rightarrow> m_Vec2 \<Rightarrow> m_Vec2" where
  "add2 a b = m_Vec2 (x2 a + x2 b) (y2 a + y2 b)"

definition sub2 :: "m_Vec2 \<Rightarrow> m_Vec2 \<Rightarrow> m_Vec2" where
  "sub2 a b = m_Vec2 (x2 a - x2 b) (y2 a - y2 b)"

definition scale2 :: "m_Vec2 \<Rightarrow> real \<Rightarrow> m_Vec2" where
  "scale2 a k = m_Vec2 (x2 a * k) (y2 a * k)"

definition SquareLength2 :: "m_Vec2 \<Rightarrow> real" where
  "SquareLength2 a = x2 a * x2 a + y2 a * y2 a"

definition Length2 :: "m_Vec2 \<Rightarrow> real" where
  "Length2 a = sqrt (SquareLength2 a)"

text \<open>\<^verbatim>\<open>Normalize\<close> multiplies by the inverse length.\<close>

definition Normalize2 :: "m_Vec2 \<Rightarrow> m_Vec2" where
  "Normalize2 a = scale2 a (1 / Length2 a)"

definition add3 :: "m_Vec3 \<Rightarrow> m_Vec3 \<Rightarrow> m_Vec3" where
  "add3 a b = m_Vec3 (x3 a + x3 b) (y3 a + y3 b) (z3 a + z3 b)"

definition sub3 :: "m_Vec3 \<Rightarrow> m_Vec3 \<Rightarrow> m_Vec3" where
  "sub3 a b = m_Vec3 (x3 a - x3 b) (y3 a - y3 b) (z3 a - z3 b)"

definition scale3 :: "m_Vec3 \<Rightarrow> real \<Rightarrow> m_Vec3" where
  "scale3 a k = m_Vec3 (x3 a * k) (y3 a * k) (z3 a * k)"

definition SquareLength3 :: "m_Vec3 \<Rightarrow> real" where
  "SquareLength3 a = x3 a * x3 a + y3 a * y3 a + z3 a * z3 a"

definition Length3 :: "m_Vec3 \<Rightarrow> real" where
  "Length3 a = sqrt (SquareLength3 a)"

definition Normalize3 :: "m_Vec3 \<Rightarrow> m_Vec3" where
  "Normalize3 a = scale3 a (1 / Length3 a)"

subsection \<open>Game constants and level data (game_constants.hpp, map_loader.hpp)\<close>

record GameConstants =
  procedures_speed_scale :: real
  walls_height :: real
  player_height :: real
  player_radius :: real
  player_z_pull_distance :: real
  mines_preparation_time_s :: real
  mines_activation_radius :: real
  rockets_gravity_scale :: real
  rockets_speed :: real
  fast_rockets_speed :: real

datatype IndexElementType = IE_None | IE_StaticWall | IE_DynamicWall | IE_StaticModel | IE_Item

record IndexElement =
  el_type :: IndexElementType
  el_index :: nat

datatype ActionCommandId =
  Lock | Unlock | PlayAnimation | StopAnimation | Move | XMove | YMove | Rotate | Up
  | Light | Change | Death | Explode | Quake | Ambient | Wind | Source | Waitout | Nonstop

record ActionCommand =
  cmd_id :: ActionCommandId
  args :: "nat \<Rightarrow> real"

record Procedure =
  start_delay_s :: real
  back_wait_s :: real
  speed :: real
  end_delay_s :: real
  locked_at_start :: bool
  red_key_required :: bool
  green_key_required :: bool
  blue_key_required :: bool
  first_message_number :: nat
  lock_message_number :: nat
  on_message_number :: nat
  linked_switches :: "(nat \<times> nat) list"
  action_commands :: "ActionCommand list"

record ModelDescription =
  model_radius :: real
  break_limit :: int
  ac :: nat
  blow_effect :: nat
  bmpz :: int
  break_sfx_number :: nat

record Model =
  frame_count :: "32 word"
  z_min :: real
  z_max :: real

datatype LinkType = Link_ | Link_Floor | Link_Shoot | Link_Return | Link_Destroy | Link_ReturnFloor | Link_Unlock

record Link =
  link_type :: LinkType
  link_x :: nat
  link_y :: nat
  proc_id :: nat

record Wall =
  vert_pos0 :: m_Vec2
  vert_pos1 :: m_Vec2
  texture_id :: nat

text \<open>\<^verbatim>\<open>gso\<close> of a wall texture: \<open>gso0\<close> lets entities through, \<open>gso1\<close> lets shots through.\<close>

record WallTextureDescription =
  gso0 :: bool
  gso1 :: bool

record MapData =
  c_map_size :: nat
  map_index :: "nat \<Rightarrow> IndexElement"
  procedures :: "Procedure list"
  links :: "Link list"
  static_walls :: "Wall list"
  walls_textures :: "nat \<Rightarrow> WallTextureDescription"
  models_description :: "ModelDescription list"
  models :: "Model list"
  floor_textures :: "nat \<Rightarrow> nat"
  ceiling_textures :: "nat \<Rightarrow> nat"
  c_empty_floor_texture_id :: nat
  c_sky_floor_texture_id :: nat

subsection \<open>Runtime state of the map (map.hpp)\<close>

datatype MovementState = None' | StartWait | Movement | BackWait | ReverseMovement

record ProcedureState =
  locked :: bool
  first_message_printed :: bool
  movement_state :: MovementState
  movement_stage :: real
  last_state_change_time :: Time

datatype AnimationState = Animation | SingleAnimation | SingleReverseAnimation | SingleFrame

text \<open>\<open>model_id\<close> is an \<^verbatim>\<open>unsigned char\<close>, the frame counters are \<^verbatim>\<open>unsigned int\<close>.\<close>

record StaticModel =
  model_pos :: m_Vec3
  model_id :: "8 word"
  health :: int
  animation_state :: AnimationState
  animation_start_time :: Time
  animation_start_frame :: "32 word"

record DynamicWall =
  dw_vert_pos0 :: m_Vec2
  dw_vert_pos1 :: m_Vec2
  dw_z :: real
  dw_texture_id :: nat

datatype ParticleEffect = Blood | Bullet | Sparkles | Explosion | BlowEffect nat

datatype SoundId = MineOn | MineExplosion | RocketHitSound nat | SoundNumber nat

text \<open>
  Outbound notifications. Positions are kept as they are handed to
  \<^verbatim>\<open>PositionToMessagePosition\<close>; the fixed-point quantisation belongs to the message sink.
\<close>

datatype Message =
  TextMessage nat
  | RocketBirth nat nat m_Vec3 m_Vec3
  | RocketDeath nat
  | DynamicItemBirth nat nat m_Vec3
  | DynamicItemDeath nat
  | ParticleEffectBirth ParticleEffect m_Vec3
  | MapEventSound m_Vec3 SoundId

record RocketDescription =
  model_file_name_empty :: bool
  reflect :: bool
  fast :: bool
  Auto2 :: bool
  gravity_force :: int
  power :: int
  rocket_blow_effect :: nat
  smoke_trail_effect_id :: nat

record GameResources =
  rockets_description :: "RocketDescription list"
  monsters_w_radius :: "nat \<Rightarrow> real"

text \<open>
  A rocket. \<open>speed\<close> is written by \<^verbatim>\<open>Shoot\<close> for reflecting types only and read for
  reflecting types only.
\<close>

record Rocket =
  start_time :: Time
  start_point :: m_Vec3
  normalized_direction :: m_Vec3
  rocket_id :: nat
  owner_id :: nat
  rocket_type_id :: nat
  previous_position :: m_Vec3
  track_length :: real
  rocket_speed :: m_Vec3

record Mine =
  mine_pos :: m_Vec3
  planting_time :: Time
  mine_id :: nat

text \<open>
  What the map reads and writes of a \<^verbatim>\<open>MonsterBase\<close> (monster_base.hpp): the type id
  (0 for a player), position, health and the vertical extent relative to the position.
\<close>

record MonsterBase =
  MonsterId :: nat
  Position :: m_Vec3
  Health :: int
  GetZMinMax :: m_Vec2

text \<open>
  The members of \<^verbatim>\<open>class Map\<close>. A member \<^verbatim>\<open>x_\<close> is the field \<open>x\<close>, or \<open>x_st\<close> where the
  level data has a field of that name. The wind and death fields are not part of the
  record: only \<^verbatim>\<open>ProcessWind\<close> and \<^verbatim>\<open>ProcessDeathZone\<close> write them and only the monsters'
  damage and drift read them.
\<close>

record Map =
  procedures_st :: "ProcedureState list"
  static_models_st :: "StaticModel list"
  dynamic_walls_st :: "DynamicWall list"
  rockets :: "Rocket list"
  mines :: "Mine list"
  monsters :: "(nat \<times> MonsterBase) list"
  next_rocket_id :: nat
  map_end_triggered :: bool
  rockets_birth_messages :: "Message list"
  rockets_death_messages :: "Message list"
  dynamic_items_birth_messages :: "Message list"
  dynamic_items_death_messages :: "Message list"
  particles_effects_messages :: "Message list"
  map_events_sounds_messages :: "Message list"
  sprite_effects :: "(m_Vec3 \<times> nat) list"

subsection \<open>Procedures: activation and return\<close>

text \<open>The player's side of an activation attempt (player.hpp): the debounce and the keys.\<close>

record Player =
  Player_TryActivateProcedure :: "nat \<Rightarrow> Time \<Rightarrow> bool"
  HaveRedKey :: bool
  HaveGreenKey :: bool
  HaveBlueKey :: bool

definition update_procedure :: "nat \<Rightarrow> (ProcedureState \<Rightarrow> ProcedureState) \<Rightarrow> Map \<Rightarrow> Map" where
  "update_procedure p f m = m\<lparr>procedures_st := (procedures_st m)[p := f (procedures_st m ! p)]\<rparr>"

definition ActivateProcedure :: "nat \<Rightarrow> Time \<Rightarrow> Map \<Rightarrow> Map" where
  "ActivateProcedure procedure_number current_time m =
     update_procedure procedure_number
       (\<lambda>procedure_state. procedure_state
          \<lparr>movement_stage := 0, movement_state := StartWait,
           last_state_change_time := current_time\<rparr>) m"

definition have_necessary_keys :: "Procedure \<Rightarrow> Player \<Rightarrow> bool" where
  "have_necessary_keys procedure player \<longleftrightarrow>
     (\<not> red_key_required procedure \<or> HaveRedKey player) \<and>
     (\<not> green_key_required procedure \<or> HaveGreenKey player) \<and>
     (\<not> blue_key_required procedure \<or> HaveBlueKey player)"

text \<open>
  \<^verbatim>\<open>Map::TryActivateProcedure\<close>. The result is the new map and the text messages handed to
  the sender, in order.
\<close>

definition TryActivateProcedure ::
  "MapData \<Rightarrow> nat \<Rightarrow> Time \<Rightarrow> Player \<Rightarrow> Map \<Rightarrow> (Map \<times> Message list) option" where
  "TryActivateProcedure md procedure_number current_time player m =
     (if \<not> Player_TryActivateProcedure player procedure_number current_time then Some (m, [])
      else if \<not> procedure_number < length (procedures_st m) then None
      else
        let procedure = procedures md ! procedure_number;
            procedure_state = procedures_st m ! procedure_number;
            keys = have_necessary_keys procedure player;
            m1 = (if keys \<and> \<not> locked procedure_state \<and> movement_state procedure_state = None'
                  then ActivateProcedure procedure_number current_time m else m);
            first = (first_message_number procedure \<noteq> 0 \<and> \<not> first_message_printed procedure_state);
            m2 = (if first
                  then update_procedure procedure_number (\<lambda>s. s\<lparr>first_message_printed := True\<rparr>) m1
                  else m1)
        in Some (m2,
             (if first then [TextMessage (first_message_number procedure)] else []) @
             (if lock_message_number procedure \<noteq> 0 \<and> (locked procedure_state \<or> \<not> keys)
              then [TextMessage (lock_message_number procedure)] else []) @
             (if on_message_number procedure \<noteq> 0
              then [TextMessage (on_message_number procedure)] else [])))"

text \<open>
  \<^verbatim>\<open>Map::ProcedureProcessDestroy\<close> indexes \<^verbatim>\<open>procedures_\<close> without an assertion; an index out of
  range is undefined behaviour there and a failure here.
\<close>

definition ProcedureProcessDestroy :: "nat \<Rightarrow> Time \<Rightarrow> Map \<Rightarrow> Map option" where
  "ProcedureProcessDestroy procedure_number current_time m =
     (if \<not> procedure_number < length (procedures_st m) then None
      else Some (ActivateProcedure procedure_number current_time
                  (update_procedure procedure_number (\<lambda>s. s\<lparr>locked := False\<rparr>) m)))"

definition ProcedureProcessShoot :: "nat \<Rightarrow> Time \<Rightarrow> Map \<Rightarrow> Map option" where
  "ProcedureProcessShoot procedure_number current_time m =
     (if \<not> procedure_number < length (procedures_st m) then None
      else
        let procedure_state = procedures_st m ! procedure_number in
        if movement_state procedure_state \<noteq> None' then Some m
        else if locked procedure_state then Some m
        else Some (ActivateProcedure procedure_number current_time m))"

definition ReturnProcedure :: "MapData \<Rightarrow> GameConstants \<Rightarrow> nat \<Rightarrow> Time \<Rightarrow> Map \<Rightarrow> Map option" where
  "ReturnProcedure md gc procedure_number current_time m =
     (if \<not> procedure_number < length (procedures md) then None
      else
        let procededure = procedures md ! procedure_number;
            procedure_state = procedures_st m ! procedure_number in
        if locked procedure_state then Some m
        else
          (case movement_state procedure_state of
            None' \<Rightarrow> Some m
          | ReverseMovement \<Rightarrow> Some m
          | StartWait \<Rightarrow>
              Some (update_procedure procedure_number (\<lambda>s. s\<lparr>movement_state := None'\<rparr>) m)
          | Movement \<Rightarrow>
              let dt_s =
                    (if speed procededure > 0
                     then max (1 / (speed procededure * procedures_speed_scale gc) -
                               (current_time - last_state_change_time procedure_state)) 0
                     else 0)
              in Some (update_procedure procedure_number
                        (\<lambda>s. s\<lparr>movement_state := ReverseMovement,
                                last_state_change_time := current_time - dt_s\<rparr>) m)
          | BackWait \<Rightarrow>
              Some (update_procedure procedure_number
                     (\<lambda>s. s\<lparr>movement_state := ReverseMovement,
                             last_state_change_time := current_time\<rparr>) m)))"

subsection \<open>Procedures: switches and immediate commands\<close>

text \<open>
  Conversion of a float argument of a command to an unsigned integer. The level loader
  writes small non-negative numbers there, on which the conversion truncates.
\<close>

definition float_to_uint :: "real \<Rightarrow> nat" where
  "float_to_uint v = nat \<lfloor>v\<rfloor>"

definition switch_model :: "MapData \<Rightarrow> bool \<Rightarrow> Time \<Rightarrow> StaticModel \<Rightarrow> StaticModel" where
  "switch_model md inverse_animation current_time model =
     (if inverse_animation
      then model\<lparr>animation_start_time := current_time,
                 animation_state := SingleReverseAnimation,
                 animation_start_frame :=
                   (if unat (model_id model) < length (models md)
                    then frame_count (models md ! unat (model_id model)) - 1 else 0)\<rparr>
      else model\<lparr>animation_start_time := current_time,
                 animation_state := SingleAnimation,
                 animation_start_frame := 0\<rparr>)"

text \<open>The loop of \<^verbatim>\<open>Map::ActivateProcedureSwitches\<close> over the linked switches.\<close>

fun switches_loop ::
  "MapData \<Rightarrow> bool \<Rightarrow> Time \<Rightarrow> (nat \<times> nat) list \<Rightarrow> StaticModel list \<Rightarrow> StaticModel list option" where
  "switches_loop md ia t [] sm = Some sm"
| "switches_loop md ia t ((x, y) # rest) sm =
     (if x \<ge> c_map_size md \<or> y \<ge> c_map_size md then switches_loop md ia t rest sm
      else
        let index_element = map_index md (x + y * c_map_size md) in
        if el_type index_element = IE_StaticModel then
          (if \<not> el_index index_element < length sm then None
           else if animation_state (sm ! el_index index_element) = SingleFrame
           then switches_loop md ia t rest
                  (sm[el_index index_element := switch_model md ia t (sm ! el_index index_element)])
           else switches_loop md ia t rest sm)
        else switches_loop md ia t rest sm)"

definition ActivateProcedureSwitches :: "MapData \<Rightarrow> Procedure \<Rightarrow> bool \<Rightarrow> Time \<Rightarrow> Map \<Rightarrow> Map option" where
  "ActivateProcedureSwitches md procedure inverse_animation current_time m =
     map_option (\<lambda>sm. m\<lparr>static_models_st := sm\<rparr>)
       (switches_loop md inverse_animation current_time (linked_switches procedure)
          (static_models_st m))"

definition PlayMapEventSound :: "m_Vec3 \<Rightarrow> SoundId \<Rightarrow> Map \<Rightarrow> Map" where
  "PlayMapEventSound pos sound_id m =
     m\<lparr>map_events_sounds_messages := map_events_sounds_messages m @ [MapEventSound pos sound_id]\<rparr>"

definition AddParticleEffect :: "m_Vec3 \<Rightarrow> ParticleEffect \<Rightarrow> Map \<Rightarrow> Map" where
  "AddParticleEffect pos particle_effect m =
     m\<lparr>particles_effects_messages :=
          particles_effects_messages m @ [ParticleEffectBirth particle_effect pos]\<rparr>"

definition EmitModelDestructionEffects :: "MapData \<Rightarrow> nat \<Rightarrow> Map \<Rightarrow> Map option" where
  "EmitModelDestructionEffects md model_number m =
     (if \<not> model_number < length (static_models_st m) then None
      else
        let model = static_models_st m ! model_number in
        if unat (model_id model) \<ge> length (models_description md) then Some m
        else
          let description = models_description md ! unat (model_id model);
              model_data = models md ! unat (model_id model);
              blow_effect_id = blow_effect description mod 100;
              pos = add3 (model_pos model)
                      (m_Vec3 0 0 ((z_min model_data + z_max model_data) * (1 / 2) +
                                   real_of_int (bmpz description) / 128));
              m1 = AddParticleEffect pos (BlowEffect blow_effect_id) m
          in Some (if break_sfx_number description \<noteq> 0
                   then PlayMapEventSound pos (SoundNumber (break_sfx_number description)) m1
                   else m1))"

definition DestroyModel :: "MapData \<Rightarrow> nat \<Rightarrow> Map \<Rightarrow> Map option" where
  "DestroyModel md model_index m =
     (if \<not> model_index < length (static_models_st m) then None
      else
        Option.bind (EmitModelDestructionEffects md model_index m) (\<lambda>m1.
          let model = static_models_st m1 ! model_index;
              new_id = model_id model + 1
          in Some (m1\<lparr>static_models_st := (static_models_st m1)[model_index :=
                     model\<lparr>model_id := new_id,
                           health := (if unat new_id < length (models_description md)
                                      then break_limit (models_description md ! unat new_id)
                                      else 0)\<rparr>]\<rparr>)))"

text \<open>
  One command of \<^verbatim>\<open>Map::DoProcedureImmediateCommands\<close>. \<open>ACode_Switch\<close> is the value of
  \<^verbatim>\<open>ACode::Switch\<close> (a_code.hpp). \<^verbatim>\<open>Wind\<close> and \<^verbatim>\<open>Death\<close> write the wind and death fields only.
\<close>

definition do_immediate_command :: "MapData \<Rightarrow> nat \<Rightarrow> ActionCommand \<Rightarrow> Map \<Rightarrow> Map option" where
  "do_immediate_command md ACode_Switch command m =
     (if cmd_id command = Lock then
        (let proc_number = float_to_uint (args command 0) in
         if \<not> proc_number < length (procedures_st m) then None
         else Some (update_procedure proc_number (\<lambda>s. s\<lparr>locked := True\<rparr>) m))
      else if cmd_id command = Unlock then
        (let proc_number = float_to_uint (args command 0) in
         if \<not> proc_number < length (procedures_st m) then None
         else Some (update_procedure proc_number (\<lambda>s. s\<lparr>locked := False\<rparr>) m))
      else if cmd_id command = PlayAnimation then Some m
      else if cmd_id command = StopAnimation then Some m
      else if cmd_id command = Change then
        (let x = float_to_uint (args command 0);
             y = float_to_uint (args command 1);
             id = float_to_uint (args command 2) in
         if x < c_map_size md \<and> y < c_map_size md then
           (let index_element = map_index md (x + y * c_map_size md) in
            if el_type index_element = IE_StaticModel then
              (if \<not> el_index index_element < length (static_models_st m) then None
               else
                 let model = static_models_st m ! el_index index_element;
                     model1 =
                       (if unat (model_id model) < length (models_description md)
                        then (if ac (models_description md ! unat (model_id model)) = ACode_Switch
                              then model\<lparr>animation_start_frame := 0, animation_state := SingleFrame\<rparr>
                              else model)
                        else model\<lparr>animation_start_frame := 0, animation_state := Animation\<rparr>)
                 in Some (m\<lparr>static_models_st := (static_models_st m)[el_index index_element :=
                            model1\<lparr>model_id := word_of_nat id - 163\<rparr>]\<rparr>))
            else if el_type index_element = IE_DynamicWall then
              (if \<not> el_index index_element < length (dynamic_walls_st m) then None
               else Some (m\<lparr>dynamic_walls_st := (dynamic_walls_st m)[el_index index_element :=
                            (dynamic_walls_st m ! el_index index_element)\<lparr>dw_texture_id := id\<rparr>]\<rparr>))
            else Some m)
         else Some m)
      else if cmd_id command = Wind then Some m
      else if cmd_id command = Death then Some m
      else if cmd_id command = Explode then
        (let x = float_to_uint (args command 0);
             y = float_to_uint (args command 1) in
         if x < c_map_size md \<and> y < c_map_size md then
           (let index_element = map_index md (x + y * c_map_size md) in
            if el_type index_element = IE_StaticModel
            then DestroyModel md (el_index index_element) m
            else Some m)
         else Some m)
      else Some m)"

fun immediate_commands_loop :: "MapData \<Rightarrow> nat \<Rightarrow> ActionCommand list \<Rightarrow> Map \<Rightarrow> Map option" where
  "immediate_commands_loop md sw [] m = Some m"
| "immediate_commands_loop md sw (command # rest) m =
     Option.bind (do_immediate_command md sw command m) (immediate_commands_loop md sw rest)"

definition DoProcedureImmediateCommands :: "MapData \<Rightarrow> nat \<Rightarrow> Procedure \<Rightarrow> Map \<Rightarrow> Map option" where
  "DoProcedureImmediateCommands md ACode_Switch procedure m =
     immediate_commands_loop md ACode_Switch (action_commands procedure) m"

text \<open>
  \<^verbatim>\<open>Map::DoProcedureDeactivationCommands\<close> switches wind and death zones off unless the
  procedure has a \<^verbatim>\<open>Nonstop\<close> command; it writes nothing else.
\<close>

definition DoProcedureDeactivationCommands :: "Procedure \<Rightarrow> Map \<Rightarrow> Map" where
  "DoProcedureDeactivationCommands procedure m = m"

subsection \<open>Procedures: the state machine of \<^verbatim>\<open>Map::Tick\<close>\<close>

definition new_stage_of :: "GameConstants \<Rightarrow> Procedure \<Rightarrow> Time \<Rightarrow> real" where
  "new_stage_of gc procedure time_since_last_state_change =
     (if speed procedure > 0
      then time_since_last_state_change * speed procedure * procedures_speed_scale gc
      else 1)"

text \<open>The body of the loop over the procedures (lines 783 to 856), for procedure \<open>p\<close>.\<close>

definition Tick_procedure :: "MapData \<Rightarrow> GameConstants \<Rightarrow> nat \<Rightarrow> Time \<Rightarrow> nat \<Rightarrow> Map \<Rightarrow> Map option" where
  "Tick_procedure md gc ACode_Switch current_time p m =
     (let procedure = procedures md ! p;
          procedure_state = procedures_st m ! p;
          time_since_last_state_change = current_time - last_state_change_time procedure_state;
          new_stage = new_stage_of gc procedure time_since_last_state_change;
          m0 = (if movement_state procedure_state \<noteq> None' \<and> end_delay_s procedure > 0 \<and>
                   time_since_last_state_change \<ge> end_delay_s procedure
                then m\<lparr>map_end_triggered := True\<rparr> else m)
      in case movement_state procedure_state of
           None' \<Rightarrow> Some m0
         | StartWait \<Rightarrow>
             if time_since_last_state_change \<ge> start_delay_s procedure then
               Option.bind (ActivateProcedureSwitches md procedure False current_time m0) (\<lambda>m1.
               Option.bind (DoProcedureImmediateCommands md ACode_Switch procedure m1) (\<lambda>m2.
                 Some (update_procedure p
                   (\<lambda>s. s\<lparr>movement_state := Movement, movement_stage := 0,
                          last_state_change_time := current_time\<rparr>) m2)))
             else Some (update_procedure p (\<lambda>s. s\<lparr>movement_stage := new_stage\<rparr>) m0)
         | Movement \<Rightarrow>
             if new_stage \<ge> 1 then
               Some (update_procedure p
                 (\<lambda>s. s\<lparr>movement_state := BackWait, movement_stage := 0,
                        last_state_change_time := current_time\<rparr>)
                 (DoProcedureDeactivationCommands procedure m0))
             else Some (update_procedure p (\<lambda>s. s\<lparr>movement_stage := new_stage\<rparr>) m0)
         | BackWait \<Rightarrow>
             let wait_time = current_time - last_state_change_time procedure_state in
             if back_wait_s procedure > 0 \<and> wait_time \<ge> back_wait_s procedure then
               Option.bind (ActivateProcedureSwitches md procedure True current_time m0) (\<lambda>m1.
                 Some (update_procedure p
                   (\<lambda>s. s\<lparr>movement_state := ReverseMovement, movement_stage := 0,
                          last_state_change_time := current_time\<rparr>) m1))
             else Some m0
         | ReverseMovement \<Rightarrow>
             if new_stage \<ge> 1 then
               Some (update_procedure p
                 (\<lambda>s. s\<lparr>movement_state := None', movement_stage := 0,
                        last_state_change_time := current_time\<rparr>) m0)
             else Some (update_procedure p (\<lambda>s. s\<lparr>movement_stage := new_stage\<rparr>) m0))"

text \<open>
  The loop \<^verbatim>\<open>for( p= 0; p < procedures_.size(); p++ )\<close>; no iteration resizes
  \<^verbatim>\<open>procedures_\<close>, so the indices are fixed when the loop starts.
\<close>

fun procedures_loop :: "MapData \<Rightarrow> GameConstants \<Rightarrow> nat \<Rightarrow> Time \<Rightarrow> nat list \<Rightarrow> Map \<Rightarrow> Map option" where
  "procedures_loop md gc sw t [] m = Some m"
| "procedures_loop md gc sw t (p # ps) m =
     Option.bind (Tick_procedure md gc sw t p m) (procedures_loop md gc sw t ps)"

definition Tick_procedures :: "MapData \<Rightarrow> GameConstants \<Rightarrow> nat \<Rightarrow> Time \<Rightarrow> Map \<Rightarrow> Map option" where
  "Tick_procedures md gc ACode_Switch current_time m =
     procedures_loop md gc ACode_Switch current_time [0..<length (procedures_st m)] m"

text \<open>The stage that \<^verbatim>\<open>Map::MoveMapObjects\<close> applies to the geometry of a procedure.\<close>

definition absolute_action_stage :: "ProcedureState \<Rightarrow> real" where
  "absolute_action_stage procedure_state =
     (if movement_state procedure_state = Movement then movement_stage procedure_state
      else if movement_state procedure_state = BackWait then 1
      else if movement_state procedure_state = ReverseMovement
      then 1 - movement_stage procedure_state
      else 0)"

subsection \<open>Procedures: operations, reachable states and edges\<close>

text \<open>
  The constructor resizes \<^verbatim>\<open>procedures_\<close> and copies the lock flag of the level data; the
  other members of a \<^verbatim>\<open>ProcedureState\<close> have their default values (map.hpp): idle, stage 0.
\<close>

definition initial_procedures :: "MapData \<Rightarrow> ProcedureState list" where
  "initial_procedures md =
     map (\<lambda>procedure. \<lparr>locked = locked_at_start procedure, first_message_printed = False,
                        movement_state = None', movement_stage = 0,
                        last_state_change_time = 0\<rparr>) (procedures md)"

inductive operation :: "MapData \<Rightarrow> GameConstants \<Rightarrow> nat \<Rightarrow> Time \<Rightarrow> Map \<Rightarrow> Map \<Rightarrow> bool"
  for md :: MapData and gc :: GameConstants and sw :: nat and t :: Time where
  tick: "Tick_procedures md gc sw t m = Some m' \<Longrightarrow> operation md gc sw t m m'"
| try_activate: "TryActivateProcedure md p t player m = Some (m', msgs) \<Longrightarrow> operation md gc sw t m m'"
| return: "ReturnProcedure md gc p t m = Some m' \<Longrightarrow> operation md gc sw t m m'"
| shoot: "ProcedureProcessShoot p t m = Some m' \<Longrightarrow> operation md gc sw t m m'"
| destroy: "ProcedureProcessDestroy p t m = Some m' \<Longrightarrow> operation md gc sw t m m'"
| other: "procedures_st m' = procedures_st m \<Longrightarrow> operation md gc sw t m m'"

inductive reachable :: "MapData \<Rightarrow> GameConstants \<Rightarrow> nat \<Rightarrow> Time \<Rightarrow> Map \<Rightarrow> bool"
  for md :: MapData and gc :: GameConstants and sw :: nat where
  constructed: "procedures_st m = initial_procedures md \<Longrightarrow> reachable md gc sw t m"
| step: "reachable md gc sw t m \<Longrightarrow> t \<le> t' \<Longrightarrow> operation md gc sw t' m m' \<Longrightarrow>
         reachable md gc sw t' m'"

definition tick_edge :: "MovementState \<Rightarrow> MovementState \<Rightarrow> bool" where
  "tick_edge a b \<longleftrightarrow>
     (a = StartWait \<and> b = Movement) \<or> (a = Movement \<and> b = BackWait) \<or>
     (a = BackWait \<and> b = ReverseMovement) \<or> (a = ReverseMovement \<and> b = None')"

definition return_edge :: "MovementState \<Rightarrow> MovementState \<Rightarrow> bool" where
  "return_edge a b \<longleftrightarrow>
     (a = StartWait \<and> b = None') \<or> (a = Movement \<and> b = ReverseMovement) \<or>
     (a = BackWait \<and> b = ReverseMovement)"

definition claimed_edge :: "MovementState \<Rightarrow> MovementState \<Rightarrow> bool" where
  "claimed_edge a b \<longleftrightarrow> (a = None' \<and> b = StartWait) \<or> tick_edge a b \<or> return_edge a b"

definition allowed_edge :: "MovementState \<Rightarrow> MovementState \<Rightarrow> bool" where
  "allowed_edge a b \<longleftrightarrow> claimed_edge a b \<or> b = StartWait"

definition stage_inv :: "Time \<Rightarrow> ProcedureState \<Rightarrow> bool" where
  "stage_inv now s \<longleftrightarrow>
     0 \<le> movement_stage s \<and>
     (movement_state s = None' \<or> last_state_change_time s \<le> now) \<and>
     (if movement_state s = BackWait then movement_stage s = 0
      else if movement_state s = Movement \<or> movement_state s = ReverseMovement
      then movement_stage s < 1 else True)"

definition procs_inv :: "MapData \<Rightarrow> Time \<Rightarrow> Map \<Rightarrow> bool" where
  "procs_inv md now m \<longleftrightarrow>
     length (procedures_st m) = length (procedures md) \<and>
     list_all (stage_inv now) (procedures_st m)"

definition same_motion :: "ProcedureState \<Rightarrow> ProcedureState \<Rightarrow> bool" where
  "same_motion s s' \<longleftrightarrow>
     movement_state s' = movement_state s \<and> movement_stage s' = movement_stage s \<and>
     last_state_change_time s' = last_state_change_time s"

definition procs_same_motion :: "ProcedureState list \<Rightarrow> ProcedureState list \<Rightarrow> bool" where
  "procs_same_motion ps ps' \<longleftrightarrow>
     length ps' = length ps \<and> (\<forall>i < length ps. same_motion (ps ! i) (ps' ! i))"

text \<open>The static models that the linked switches of a procedure name.\<close>

definition switch_targets :: "MapData \<Rightarrow> (nat \<times> nat) list \<Rightarrow> nat set" where
  "switch_targets md sws =
     {el_index (map_index md (x + y * c_map_size md)) | x y.
        (x, y) \<in> set sws \<and> x < c_map_size md \<and> y < c_map_size md \<and>
        el_type (map_index md (x + y * c_map_size md)) = IE_StaticModel}"

subsection \<open>An example level\<close>

definition example_constants :: GameConstants where
  "example_constants =
     \<lparr>procedures_speed_scale = 1 / 10, walls_height = 2, player_height = 1,
      player_radius = 1 / 4, player_z_pull_distance = 1 / 4, mines_preparation_time_s = 1,
      mines_activation_radius = 1 / 2, rockets_gravity_scale = 1, rockets_speed = 10,
      fast_rockets_speed = 20\<rparr>"

definition example_procedure :: Procedure where
  "example_procedure =
     \<lparr>start_delay_s = 3, back_wait_s = 2, speed = 10, end_delay_s = 0, locked_at_start = False,
      red_key_required = True, green_key_required = False, blue_key_required = False,
      first_message_number = 0, lock_message_number = 5, on_message_number = 0,
      linked_switches = [(1, 1)], action_commands = []\<rparr>"

definition example_map_data :: MapData where
  "example_map_data =
     \<lparr>c_map_size = 64,
      map_index = (\<lambda>i. if i = 65 then \<lparr>el_type = IE_StaticModel, el_index = 0\<rparr>
                         else \<lparr>el_type = IE_None, el_index = 0\<rparr>),
      procedures = [example_procedure], links = [], static_walls = [],
      walls_textures = (\<lambda>i. \<lparr>gso0 = False, gso1 = False\<rparr>),
      models_description = [\<lparr>model_radius = 1 / 4, break_limit = 0, ac = 1, blow_effect = 0,
                              bmpz = 0, break_sfx_number = 0\<rparr>],
      models = [\<lparr>frame_count = 4, z_min = 0, z_max = 1\<rparr>],
      floor_textures = (\<lambda>i. 1), ceiling_textures = (\<lambda>i. 1),
      c_empty_floor_texture_id = 63, c_sky_floor_texture_id = 62\<rparr>"

definition example_procedure_state :: "MovementState \<Rightarrow> real \<Rightarrow> Time \<Rightarrow> ProcedureState" where
  "example_procedure_state st stage t =
     \<lparr>locked = False, first_message_printed = False, movement_state = st,
      movement_stage = stage, last_state_change_time = t\<rparr>"

definition example_switch :: "AnimationState \<Rightarrow> Time \<Rightarrow> StaticModel" where
  "example_switch st t =
     \<lparr>model_pos = m_Vec3 (3 / 2) (3 / 2) 0, model_id = 0, health = 0, animation_state = st,
      animation_start_time = t, animation_start_frame = 0\<rparr>"

definition example_map :: "ProcedureState \<Rightarrow> StaticModel \<Rightarrow> Map" where
  "example_map s model =
     \<lparr>procedures_st = [s], static_models_st = [model], dynamic_walls_st = [],
      rockets = [], mines = [], monsters = [], next_rocket_id = 1, map_end_triggered = False,
      rockets_birth_messages = [], rockets_death_messages = [],
      dynamic_items_birth_messages = [], dynamic_items_death_messages = [],
      particles_effects_messages = [], map_events_sounds_messages = [], sprite_effects = []\<rparr>"

definition example_player :: Player where
  "example_player =
     \<lparr>Player_TryActivateProcedure = (\<lambda>p t. True), HaveRedKey = False, HaveGreenKey = False,
      HaveBlueKey = False\<rparr>"

subsection \<open>Collaborators that are not part of map.cpp\<close>

text \<open>
  The geometric queries (collisions.hpp), the traversals of the collision index
  (collision_index.inl), the rotation of a vector about an axis (matrix.hpp) and the monsters'
  own \<^verbatim>\<open>TryShot\<close> and \<^verbatim>\<open>Hit\<close> (monster_base.hpp) are parameters. A query that writes its
  result through a reference and returns \<^verbatim>\<open>bool\<close> returns an option here. A traversal is
  the list of the index elements it hands to its visitor, in order; no visitor of map.cpp
  stops a traversal early.
\<close>

record Externals =
  CollideCircleWithLineSegment :: "m_Vec2 \<Rightarrow> m_Vec2 \<Rightarrow> m_Vec2 \<Rightarrow> real \<Rightarrow> m_Vec2 option"
  RayIntersectWall :: "m_Vec2 \<Rightarrow> m_Vec2 \<Rightarrow> real \<Rightarrow> real \<Rightarrow> m_Vec3 \<Rightarrow> m_Vec3 \<Rightarrow> m_Vec3 option"
  RayIntersectCylinder :: "m_Vec2 \<Rightarrow> real \<Rightarrow> real \<Rightarrow> real \<Rightarrow> m_Vec3 \<Rightarrow> m_Vec3 \<Rightarrow> m_Vec3 option"
  RayIntersectXYPlane :: "real \<Rightarrow> m_Vec3 \<Rightarrow> m_Vec3 \<Rightarrow> m_Vec3 option"
  ProcessElementsInRadius :: "m_Vec2 \<Rightarrow> real \<Rightarrow> IndexElement list"
  RayCast :: "m_Vec3 \<Rightarrow> m_Vec3 \<Rightarrow> real \<Rightarrow> IndexElement list"
  TryShot :: "MonsterBase \<Rightarrow> m_Vec3 \<Rightarrow> m_Vec3 \<Rightarrow> m_Vec3 option"
  Monster_Hit :: "MonsterBase \<Rightarrow> int \<Rightarrow> Time \<Rightarrow> MonsterBase"
  Rotate :: "m_Vec3 \<Rightarrow> real \<Rightarrow> m_Vec3 \<Rightarrow> m_Vec3"

subsection \<open>\<^verbatim>\<open>Map::CollideWithMap\<close>\<close>

text \<open>
  The state of the walk over the geometry: the horizontal position, \<^verbatim>\<open>new_z\<close> and
  \<^verbatim>\<open>out_on_floor\<close>. The visitor \<^verbatim>\<open>elements_process_func\<close> for one index element; an index
  into \<^verbatim>\<open>static_models_\<close> out of range is undefined behaviour there and a failure here.
\<close>

definition elements_process_func ::
  "MapData \<Rightarrow> GameConstants \<Rightarrow> Externals \<Rightarrow> StaticModel list \<Rightarrow> real \<Rightarrow> real \<Rightarrow> real \<Rightarrow> real \<Rightarrow>
   IndexElement \<Rightarrow> m_Vec2 \<times> real \<times> bool \<Rightarrow> (m_Vec2 \<times> real \<times> bool) option" where
  "elements_process_func md gc ext sm height radius z_bottom z_top index_element st =
     (case st of (pos, new_z, out_on_floor) \<Rightarrow>
      if el_type index_element = IE_StaticWall then
        (if \<not> el_index index_element < length (static_walls md) then None
         else
           let wall = static_walls md ! el_index index_element;
               tex = walls_textures md (texture_id wall) in
           if gso0 tex then Some st
           else
             (case CollideCircleWithLineSegment ext (vert_pos0 wall) (vert_pos1 wall) pos radius of
                Some new_pos \<Rightarrow> Some (new_pos, new_z, out_on_floor)
              | None \<Rightarrow> Some st))
      else if el_type index_element = IE_StaticModel then
        (if \<not> el_index index_element < length sm then None
         else
           let model = sm ! el_index index_element in
           if unat (model_id model) \<ge> length (models_description md) then Some st
           else
             let model_description = models_description md ! unat (model_id model) in
             if model_radius model_description \<le> 0 then Some st
             else
               let model_geometry = models md ! unat (model_id model);
                   model_z_min = z_min model_geometry + z3 (model_pos model);
                   model_z_max = z_max model_geometry + z3 (model_pos model) in
               if z_top < model_z_min \<or> z_bottom > model_z_max then Some st
               else
                 let min_distance = radius + model_radius model_description;
                     vec_to_pos = sub2 pos (xy (model_pos model));
                     square_distance = SquareLength2 vec_to_pos in
                 if square_distance \<le> min_distance * min_distance then
                   (if z_max model_geometry - z_bottom \<le> player_z_pull_distance gc
                    then Some (pos, max new_z model_z_max, True)
                    else if z_top - z_min model_geometry \<le> player_z_pull_distance gc
                    then Some (pos, min new_z (model_z_min - height), out_on_floor)
                    else Some (add2 (xy (model_pos model))
                                 (scale2 vec_to_pos (min_distance / sqrt square_distance)),
                               new_z, out_on_floor))
                 else Some st)
      else Some st)"

fun elements_loop ::
  "(IndexElement \<Rightarrow> 's \<Rightarrow> 's option) \<Rightarrow> IndexElement list \<Rightarrow> 's \<Rightarrow> 's option" where
  "elements_loop f [] st = Some st"
| "elements_loop f (e # es) st = Option.bind (f e st) (elements_loop f es)"

definition collide_dynamic_wall ::
  "MapData \<Rightarrow> GameConstants \<Rightarrow> Externals \<Rightarrow> real \<Rightarrow> real \<Rightarrow> real \<Rightarrow> DynamicWall \<Rightarrow> m_Vec2 \<Rightarrow> m_Vec2" where
  "collide_dynamic_wall md gc ext radius z_bottom z_top wall pos =
     (if dw_vert_pos0 wall = dw_vert_pos1 wall then pos
      else if gso0 (walls_textures md (dw_texture_id wall)) then pos
      else if z_top < dw_z wall \<or> z_bottom > dw_z wall + walls_height gc then pos
      else
        (case CollideCircleWithLineSegment ext (dw_vert_pos0 wall) (dw_vert_pos1 wall) pos radius of
           Some new_pos \<Rightarrow> new_pos
         | None \<Rightarrow> pos))"

text \<open>The result is the returned position and the value left in \<^verbatim>\<open>out_on_floor\<close>.\<close>

definition CollideWithMap ::
  "MapData \<Rightarrow> GameConstants \<Rightarrow> Externals \<Rightarrow> Map \<Rightarrow> m_Vec3 \<Rightarrow> real \<Rightarrow> real \<Rightarrow> (m_Vec3 \<times> bool) option" where
  "CollideWithMap md gc ext m in_pos height radius =
     (let z_bottom = z3 in_pos;
          z_top = z_bottom + height in
      Option.bind
        (elements_loop
           (elements_process_func md gc ext (static_models_st m) height radius z_bottom z_top)
           (ProcessElementsInRadius ext (xy in_pos) radius)
           (xy in_pos, z3 in_pos, False))
        (\<lambda>(pos1, new_z, out_on_floor).
           let pos = fold (collide_dynamic_wall md gc ext radius z_bottom z_top)
                       (dynamic_walls_st m) pos1 in
           if new_z \<le> 0 then Some (Vec3_of pos 0, True)
           else if new_z + height > walls_height gc
           then Some (Vec3_of pos (walls_height gc - height), out_on_floor)
           else Some (Vec3_of pos new_z, out_on_floor)))"

subsection \<open>Mines (\<^verbatim>\<open>Map::Tick\<close>, lines 1139 to 1197)\<close>

definition monster_radius :: "GameConstants \<Rightarrow> GameResources \<Rightarrow> MonsterBase \<Rightarrow> real" where
  "monster_radius gc gr monster =
     (if MonsterId monster = 0 then player_radius gc else monsters_w_radius gr (MonsterId monster))"

text \<open>The loop over the monsters that sets \<^verbatim>\<open>activated\<close>.\<close>

definition mine_activated :: "GameConstants \<Rightarrow> GameResources \<Rightarrow> (nat \<times> MonsterBase) list \<Rightarrow> Mine \<Rightarrow> bool" where
  "mine_activated gc gr ms mine =
     fold (\<lambda>monster_value activated.
             let monster = snd monster_value;
                 square_distance =
                   SquareLength2 (sub2 (xy (Position monster)) (xy (mine_pos mine))) in
             if square_distance > 8 * 8 then activated
             else
               let activation_distance = mines_activation_radius gc + monster_radius gc gr monster in
               if square_distance < activation_distance * activation_distance then True
               else activated)
          ms False"

definition mine_need_kill ::
  "GameConstants \<Rightarrow> GameResources \<Rightarrow> Time \<Rightarrow> (nat \<times> MonsterBase) list \<Rightarrow> Mine \<Rightarrow> bool" where
  "mine_need_kill gc gr current_time ms mine =
     (let time_delta_s = current_time - planting_time mine in
      if time_delta_s > 30 then True
      else if time_delta_s \<ge> mines_preparation_time_s gc then mine_activated gc gr ms mine
      else False)"

text \<open>What the body of the loop adds to the message queues when the mine detonates.\<close>

definition mine_explode :: "Mine \<Rightarrow> Map \<Rightarrow> Map" where
  "mine_explode mine m =
     PlayMapEventSound (mine_pos mine) (SoundNumber 40)
       (m\<lparr>particles_effects_messages :=
            particles_effects_messages m @ [ParticleEffectBirth Explosion (mine_pos mine)]\<rparr>)"

text \<open>\<^verbatim>\<open>if( m != size - 1 ) v[m]= v.back(); v.pop_back();\<close>\<close>

definition swap_remove :: "nat \<Rightarrow> 'a list \<Rightarrow> 'a list" where
  "swap_remove i xs = butlast (if i \<noteq> length xs - 1 then xs[i := last xs] else xs)"

function Tick_mines_loop :: "GameConstants \<Rightarrow> GameResources \<Rightarrow> Time \<Rightarrow> nat \<Rightarrow> Map \<Rightarrow> Map" where
  "Tick_mines_loop gc gr current_time i m =
     (if i < length (mines m) then
        let mine = mines m ! i;
            time_delta_s = current_time - planting_time mine in
        if mine_need_kill gc gr current_time (monsters m) mine then
          Tick_mines_loop gc gr current_time i
            ((if time_delta_s > 30 then m else mine_explode mine m)
               \<lparr>dynamic_items_death_messages :=
                  dynamic_items_death_messages m @ [DynamicItemDeath (mine_id mine)],
                mines := swap_remove i (mines m)\<rparr>)
        else Tick_mines_loop gc gr current_time (i + 1) m
      else m)"
  by pat_completeness auto
termination
  by (relation "measure (\<lambda>(gc, gr, t, i, m). length (mines m) - i)")
     (auto simp: swap_remove_def)

definition Tick_mines :: "GameConstants \<Rightarrow> GameResources \<Rightarrow> Time \<Rightarrow> Map \<Rightarrow> Map" where
  "Tick_mines gc gr current_time m = Tick_mines_loop gc gr current_time 0 m"

subsection \<open>Monsters against monsters (\<^verbatim>\<open>Map::Tick\<close>, lines 1316 to 1372)\<close>

text \<open>
  The body of the inner loop for a pair of distinct entities, after the test of the first
  one's health. \<^verbatim>\<open>first_monster_radius\<close> and \<^verbatim>\<open>first_monster_z_minmax\<close> are computed before
  the inner loop. The result is \<^term>\<open>None\<close> where the source says \<^verbatim>\<open>continue\<close>, and the two
  entities with their new positions otherwise.
\<close>

definition collide_together ::
  "GameResources \<Rightarrow> real \<Rightarrow> m_Vec2 \<Rightarrow> MonsterBase \<Rightarrow> MonsterBase \<Rightarrow> (MonsterBase \<times> MonsterBase) option" where
  "collide_together gr first_monster_radius first_monster_z_minmax first_monster second_monster =
     (if Health second_monster \<le> 0 then None
      else
        let square_distance =
              SquareLength2 (sub2 (xy (Position first_monster)) (xy (Position second_monster)));
            c_max_collide_distance = 8 in
        if square_distance > c_max_collide_distance * c_max_collide_distance then None
        else
          let second_monster_radius = monsters_w_radius gr (MonsterId second_monster);
              min_distance = second_monster_radius + first_monster_radius in
          if square_distance > min_distance * min_distance then None
          else
            let second_monster_z_minmax =
                  add2 (GetZMinMax second_monster)
                    (m_Vec2 (z3 (Position second_monster)) (z3 (Position second_monster))) in
            if y2 first_monster_z_minmax < x2 second_monster_z_minmax \<or>
               y2 second_monster_z_minmax < x2 first_monster_z_minmax then None
            else
              let collide_vec =
                    Normalize2 (sub2 (xy (Position second_monster)) (xy (Position first_monster)));
                  move_delta = min_distance - sqrt square_distance;
                  first_monster_k =
                    (if MonsterId first_monster = 0 \<and> MonsterId second_monster \<noteq> 0 then 1
                     else if MonsterId first_monster \<noteq> 0 \<and> MonsterId second_monster = 0 then 0
                     else 1 / 2);
                  first_monster_pos =
                    sub2 (xy (Position first_monster))
                      (scale2 (scale2 collide_vec move_delta) first_monster_k);
                  second_monster_pos =
                    add2 (xy (Position second_monster))
                      (scale2 (scale2 collide_vec move_delta) (1 - first_monster_k))
              in Some (first_monster\<lparr>Position := Vec3_of first_monster_pos (z3 (Position first_monster))\<rparr>,
                       second_monster\<lparr>Position :=
                         Vec3_of second_monster_pos (z3 (Position second_monster))\<rparr>))"

text \<open>
  The two loops over \<^verbatim>\<open>monsters_\<close>, by position in the container. The entities are reached
  through pointers, so each pair reads the positions that the earlier pairs have written.
\<close>

fun collide_inner ::
  "GameResources \<Rightarrow> real \<Rightarrow> m_Vec2 \<Rightarrow> nat \<Rightarrow> nat list \<Rightarrow> (nat \<times> MonsterBase) list \<Rightarrow> (nat \<times> MonsterBase) list" where
  "collide_inner gr r zmm i [] ms = ms"
| "collide_inner gr r zmm i (j # js) ms =
     (if j = i then collide_inner gr r zmm i js ms
      else
        (case collide_together gr r zmm (snd (ms ! i)) (snd (ms ! j)) of
           None \<Rightarrow> collide_inner gr r zmm i js ms
         | Some (first_monster, second_monster) \<Rightarrow>
             collide_inner gr r zmm i js
               (ms[i := (fst (ms ! i), first_monster), j := (fst (ms ! j), second_monster)])))"

fun collide_outer :: "GameResources \<Rightarrow> nat list \<Rightarrow> (nat \<times> MonsterBase) list \<Rightarrow> (nat \<times> MonsterBase) list" where
  "collide_outer gr [] ms = ms"
| "collide_outer gr (i # is) ms =
     (let first_monster = snd (ms ! i) in
      if Health first_monster \<le> 0 then collide_outer gr is ms
      else
        let first_monster_radius = monsters_w_radius gr (MonsterId first_monster);
            first_monster_z_minmax =
              add2 (GetZMinMax first_monster)
                (m_Vec2 (z3 (Position first_monster)) (z3 (Position first_monster)))
        in collide_outer gr is
             (collide_inner gr first_monster_radius first_monster_z_minmax i [0..<length ms] ms))"

definition Tick_collide_monsters_together :: "GameResources \<Rightarrow> Map \<Rightarrow> Map" where
  "Tick_collide_monsters_together gr m =
     m\<lparr>monsters := collide_outer gr [0..<length (monsters m)] (monsters m)\<rparr>"

subsection \<open>\<^verbatim>\<open>Map::ProcessShot\<close>\<close>

datatype ObjectType = ObjNone | ObjStaticWall | ObjDynamicWall | ObjModel | ObjMonster | ObjFloor

record HitResult =
  object_type :: ObjectType
  object_index :: nat
  hit_pos :: m_Vec3

text \<open>A default \<^verbatim>\<open>HitResult\<close> (map.hpp) is no hit.\<close>

definition no_hit :: HitResult where
  "no_hit = \<lparr>object_type = ObjNone, object_index = 0, hit_pos = m_Vec3 0 0 0\<rparr>"

text \<open>\<^verbatim>\<open>Constants::max_float\<close> (math_utils.hpp), the largest finite \<^verbatim>\<open>float\<close>.\<close>

definition max_float :: real where
  "max_float = (2 - 1 / 2 ^ 23) * 2 ^ 127"

type_synonym candidate = "m_Vec3 \<times> ObjectType \<times> nat"

text \<open>
  The lambda \<^verbatim>\<open>process_candidate_shot_pos\<close>, on the pair of \<^verbatim>\<open>result\<close> and
  \<^verbatim>\<open>nearest_shot_point_square_distance\<close>.
\<close>

definition process_candidate_shot_pos :: "m_Vec3 \<Rightarrow> candidate \<Rightarrow> HitResult \<times> real \<Rightarrow> HitResult \<times> real" where
  "process_candidate_shot_pos shot_start_point c acc =
     (case c of (candidate_pos, obj_type, obj_index) \<Rightarrow>
      let square_distance = SquareLength3 (sub3 candidate_pos shot_start_point) in
      if square_distance < snd acc
      then (\<lparr>object_type = obj_type, object_index = obj_index, hit_pos = candidate_pos\<rparr>,
            square_distance)
      else acc)"

text \<open>
  The candidate that the visitor of the ray cast finds at one index element: a failure where
  an assertion fails, no candidate where the element is skipped or the ray misses it.
\<close>

definition static_candidate ::
  "MapData \<Rightarrow> Externals \<Rightarrow> Map \<Rightarrow> m_Vec3 \<Rightarrow> m_Vec3 \<Rightarrow> IndexElement \<Rightarrow> candidate list option" where
  "static_candidate md ext m shot_start_point shot_direction_normalized element =
     (if el_type element = IE_StaticWall then
        (if \<not> el_index element < length (static_walls md) then None
         else
           let wall = static_walls md ! el_index element in
           if gso1 (walls_textures md (texture_id wall)) then Some []
           else
             (case RayIntersectWall ext (vert_pos0 wall) (vert_pos1 wall) 0 2
                     shot_start_point shot_direction_normalized of
                Some candidate_pos \<Rightarrow> Some [(candidate_pos, ObjStaticWall, el_index element)]
              | None \<Rightarrow> Some []))
      else if el_type element = IE_StaticModel then
        (if \<not> el_index element < length (static_models_st m) then None
         else
           let model = static_models_st m ! el_index element in
           if unat (model_id model) \<ge> length (models_description md) then Some []
           else
             let model_description = models_description md ! unat (model_id model) in
             if model_radius model_description \<le> 0 then Some []
             else
               let model_data = models md ! unat (model_id model) in
               (case RayIntersectCylinder ext (xy (model_pos model)) (model_radius model_description)
                       (z_min model_data + z3 (model_pos model))
                       (z_max model_data + z3 (model_pos model))
                       shot_start_point shot_direction_normalized of
                  Some candidate_pos \<Rightarrow> Some [(candidate_pos, ObjModel, el_index element)]
                | None \<Rightarrow> Some []))
      else Some [])"

fun static_candidates ::
  "MapData \<Rightarrow> Externals \<Rightarrow> Map \<Rightarrow> m_Vec3 \<Rightarrow> m_Vec3 \<Rightarrow> IndexElement list \<Rightarrow> candidate list option" where
  "static_candidates md ext m s d [] = Some []"
| "static_candidates md ext m s d (element # rest) =
     Option.bind (static_candidate md ext m s d element) (\<lambda>c.
       map_option (\<lambda>cs. c @ cs) (static_candidates md ext m s d rest))"

definition dynamic_wall_candidate ::
  "MapData \<Rightarrow> Externals \<Rightarrow> m_Vec3 \<Rightarrow> m_Vec3 \<Rightarrow> nat \<times> DynamicWall \<Rightarrow> candidate list" where
  "dynamic_wall_candidate md ext shot_start_point shot_direction_normalized iw =
     (let wall = snd iw in
      if gso1 (walls_textures md (dw_texture_id wall)) then []
      else
        (case RayIntersectWall ext (dw_vert_pos0 wall) (dw_vert_pos1 wall) (dw_z wall) (dw_z wall + 2)
                shot_start_point shot_direction_normalized of
           Some candidate_pos \<Rightarrow> [(candidate_pos, ObjDynamicWall, fst iw)]
         | None \<Rightarrow> []))"

definition monster_candidate ::
  "Externals \<Rightarrow> m_Vec3 \<Rightarrow> m_Vec3 \<Rightarrow> nat \<Rightarrow> nat \<times> MonsterBase \<Rightarrow> candidate list" where
  "monster_candidate ext shot_start_point shot_direction_normalized skip_monster_id monster_value =
     (if fst monster_value = skip_monster_id then []
      else
        (case TryShot ext (snd monster_value) shot_start_point shot_direction_normalized of
           Some candidate_pos \<Rightarrow> [(candidate_pos, ObjMonster, fst monster_value)]
         | None \<Rightarrow> []))"

text \<open>The floor (\<open>z = 0\<close>) or the ceiling (\<open>z = 2\<close>); the index of the hit is \<open>z >> 1\<close>.\<close>

definition floor_candidate :: "MapData \<Rightarrow> Externals \<Rightarrow> m_Vec3 \<Rightarrow> m_Vec3 \<Rightarrow> nat \<Rightarrow> candidate list" where
  "floor_candidate md ext shot_start_point shot_direction_normalized z =
     (case RayIntersectXYPlane ext (real z) shot_start_point shot_direction_normalized of
        None \<Rightarrow> []
      | Some candidate_pos \<Rightarrow>
          let x = \<lfloor>x3 candidate_pos\<rfloor>;
              y = \<lfloor>y3 candidate_pos\<rfloor> in
          if x < 0 \<or> x \<ge> int (c_map_size md) \<or> y < 0 \<or> y \<ge> int (c_map_size md) then []
          else
            let coord = nat (x + y * int (c_map_size md));
                texture_id = (if z = 0 then floor_textures md else ceiling_textures md) coord in
            if texture_id = c_empty_floor_texture_id md \<or> texture_id = c_sky_floor_texture_id md
            then []
            else [(candidate_pos, ObjFloor, z div 2)])"

text \<open>All candidates in the order in which \<^verbatim>\<open>ProcessShot\<close> meets them.\<close>

definition shot_candidates ::
  "MapData \<Rightarrow> Externals \<Rightarrow> Map \<Rightarrow> m_Vec3 \<Rightarrow> m_Vec3 \<Rightarrow> real \<Rightarrow> nat \<Rightarrow> candidate list option" where
  "shot_candidates md ext m shot_start_point shot_direction_normalized max_distance skip_monster_id =
     map_option
       (\<lambda>static.
          static @
          concat (map (dynamic_wall_candidate md ext shot_start_point shot_direction_normalized)
                    (zip [0..<length (dynamic_walls_st m)] (dynamic_walls_st m))) @
          concat (map (monster_candidate ext shot_start_point shot_direction_normalized skip_monster_id)
                    (monsters m)) @
          concat (map (floor_candidate md ext shot_start_point shot_direction_normalized) [0, 2]))
       (static_candidates md ext m shot_start_point shot_direction_normalized
          (RayCast ext shot_start_point shot_direction_normalized max_distance))"

definition ProcessShot ::
  "MapData \<Rightarrow> Externals \<Rightarrow> Map \<Rightarrow> m_Vec3 \<Rightarrow> m_Vec3 \<Rightarrow> real \<Rightarrow> nat \<Rightarrow> HitResult option" where
  "ProcessShot md ext m shot_start_point shot_direction_normalized max_distance skip_monster_id =
     map_option
       (\<lambda>cs. fst (fold (process_candidate_shot_pos shot_start_point) cs
                      (no_hit, max_distance * max_distance)))
       (shot_candidates md ext m shot_start_point shot_direction_normalized max_distance
          skip_monster_id)"

subsection \<open>Rockets: \<^verbatim>\<open>Map::Shoot\<close> and the rockets' part of \<^verbatim>\<open>Map::Tick\<close>\<close>

definition HasInfiniteSpeed :: "GameResources \<Rightarrow> Rocket \<Rightarrow> bool option" where
  "HasInfiniteSpeed gr rocket =
     (if \<not> rocket_type_id rocket < length (rockets_description gr) then None
      else Some (model_file_name_empty (rockets_description gr ! rocket_type_id rocket)))"

text \<open>
  \<^verbatim>\<open>Map::Shoot\<close>. The birth message carries the direction; the source sends its two angles.
\<close>

definition Shoot ::
  "GameConstants \<Rightarrow> GameResources \<Rightarrow> nat \<Rightarrow> nat \<Rightarrow> m_Vec3 \<Rightarrow> m_Vec3 \<Rightarrow> Time \<Rightarrow> Map \<Rightarrow> Map option" where
  "Shoot gc gr owner rocket_type from dir current_time m =
     (let rocket = \<lparr>start_time = current_time, start_point = from, normalized_direction = dir,
                    rocket_id = next_rocket_id m, owner_id = owner, rocket_type_id = rocket_type,
                    previous_position = from, track_length = 0, rocket_speed = m_Vec3 0 0 0\<rparr>
      in
      Option.bind (HasInfiniteSpeed gr rocket) (\<lambda>infinite.
        let description = rockets_description gr ! rocket_type;
            rocket1 =
              (if reflect description
               then rocket\<lparr>rocket_speed :=
                      scale3 dir (if fast description then fast_rockets_speed gc else rockets_speed gc)\<rparr>
               else rocket)
        in Some (m\<lparr>rockets := rockets m @ [rocket1],
                   next_rocket_id := next_rocket_id m + 1,
                   rockets_birth_messages :=
                     rockets_birth_messages m @
                     (if \<not> infinite
                      then [RocketBirth (rocket_id rocket) (rocket_type_id rocket)
                              (start_point rocket) (normalized_direction rocket)]
                      else [])\<rparr>)))"

definition cross3 :: "m_Vec3 \<Rightarrow> m_Vec3 \<Rightarrow> m_Vec3" where
  "cross3 a b =
     m_Vec3 (y3 a * z3 b - z3 a * y3 b) (z3 a * x3 b - x3 a * z3 b) (x3 a * y3 b - y3 a * x3 b)"

text \<open>
  \<^verbatim>\<open>Map::FindNearestPlayerPos\<close>. The players are the entities of type 0. The source leaves
  \<^verbatim>\<open>nearest_player_pos\<close> without a value until a player is nearer than \<^verbatim>\<open>max_float\<close>.
\<close>

definition FindNearestPlayerPos :: "Map \<Rightarrow> m_Vec3 \<Rightarrow> m_Vec3 option" where
  "FindNearestPlayerPos m pos =
     (let players = filter (\<lambda>monster_value. MonsterId (snd monster_value) = 0) (monsters m) in
      if players = [] then None
      else
        let z_minmax = GetZMinMax (snd (hd players));
            dz = (x2 z_minmax + y2 z_minmax) * (1 / 2)
        in Some (fst (fold (\<lambda>player_value acc.
                   let p = Position (snd player_value);
                       player_pos_corrected = m_Vec3 (x3 p) (y3 p) (z3 p + dz);
                       square_distance = SquareLength3 (sub3 player_pos_corrected pos) in
                   if square_distance < snd acc then (player_pos_corrected, square_distance)
                   else acc)
                 players (m_Vec3 0 0 0, max_float))))"

text \<open>The flight of a reflecting rocket in one tick (lines 940 to 953).\<close>

definition reflect_move :: "real \<Rightarrow> real \<Rightarrow> Rocket \<Rightarrow> Rocket \<times> m_Vec3" where
  "reflect_move gravity last_tick_delta_s rocket =
     (let speed1 = m_Vec3 (x3 (rocket_speed rocket)) (y3 (rocket_speed rocket))
                     (z3 (rocket_speed rocket) - gravity * last_tick_delta_s);
          new_pos = add3 (previous_position rocket) (scale3 speed1 last_tick_delta_s);
          reflected = z3 new_pos < 0;
          new_pos1 = (if reflected then m_Vec3 (x3 new_pos) (y3 new_pos) 0 else new_pos);
          speed2 = (if reflected then m_Vec3 (x3 speed1) (y3 speed1) \<bar>z3 speed1\<bar> else speed1)
      in (rocket\<lparr>rocket_speed := speed2, normalized_direction := Normalize3 speed2\<rparr>, new_pos1))"

text \<open>The flight of a homing rocket in one tick (lines 954 to 976).\<close>

definition homing_move :: "Externals \<Rightarrow> Map \<Rightarrow> real \<Rightarrow> real \<Rightarrow> Rocket \<Rightarrow> Rocket \<times> m_Vec3" where
  "homing_move ext m flight_speed last_tick_delta_s rocket =
     (let rocket1 =
            (case FindNearestPlayerPos m (previous_position rocket) of
               None \<Rightarrow> rocket
             | Some target_pos \<Rightarrow>
                 let dir_to_target = Normalize3 (sub3 target_pos (previous_position rocket));
                     rot_axis0 = cross3 (normalized_direction rocket) dir_to_target;
                     rot_axis = (if SquareLength3 rot_axis0 < (1 / 1000) * (1 / 1000)
                                 then m_Vec3 0 0 1 else rot_axis0)
                 in rocket\<lparr>normalized_direction :=
                      Normalize3 (Rotate ext rot_axis (last_tick_delta_s * (pi / 2))
                                    (normalized_direction rocket))\<rparr>)
      in (rocket1,
          add3 (previous_position rocket)
            (scale3 (scale3 (normalized_direction rocket1) flight_speed) last_tick_delta_s)))"

text \<open>The smoke trail of one tick (lines 996 to 1016).\<close>

definition smoke_trail :: "GameResources \<Rightarrow> m_Vec3 \<Rightarrow> Rocket \<Rightarrow> Map \<Rightarrow> Rocket \<times> Map" where
  "smoke_trail gr new_pos rocket m =
     (let sprite_effect_id = smoke_trail_effect_id (rockets_description gr ! rocket_type_id rocket) in
      if sprite_effect_id \<noteq> 0 then
        let length_delta = Length3 (sub3 new_pos (previous_position rocket)) * 2;
            new_track_length = track_length rocket + length_delta
        in (rocket\<lparr>track_length := new_track_length\<rparr>,
            m\<lparr>sprite_effects := sprite_effects m @
                 map (\<lambda>i. let part = (real i - track_length rocket) / length_delta
                           in (add3 (scale3 (previous_position rocket) (1 - part))
                                 (scale3 new_pos part), sprite_effect_id))
                   [float_to_uint (track_length rocket) + 1 ..< float_to_uint new_track_length + 1]\<rparr>)
      else (rocket, m))"

text \<open>
  The flight of a rocket of finite speed and the test of the segment it flew (lines 935 to
  1018): the rocket at its new position, the hit, and the map with the smoke trail.
\<close>

definition fly ::
  "MapData \<Rightarrow> GameConstants \<Rightarrow> GameResources \<Rightarrow> Externals \<Rightarrow> Time \<Rightarrow> real \<Rightarrow> Rocket \<Rightarrow> Map \<Rightarrow>
   (Rocket \<times> HitResult \<times> Map) option" where
  "fly md gc gr ext current_time last_tick_delta_s rocket m =
     (let rocket_description = rockets_description gr ! rocket_type_id rocket;
          time_delta_s = current_time - start_time rocket;
          c_length_eps = 1 / 64;
          gravity = rockets_gravity_scale gc * real_of_int (gravity_force rocket_description);
          flight_speed = (if fast rocket_description then fast_rockets_speed gc else rockets_speed gc);
          moved =
            (if reflect rocket_description then reflect_move gravity last_tick_delta_s rocket
             else if Auto2 rocket_description then homing_move ext m flight_speed last_tick_delta_s rocket
             else (rocket,
                   add3 (add3 (start_point rocket)
                           (scale3 (normalized_direction rocket) (time_delta_s * flight_speed)))
                     (scale3 (m_Vec3 0 0 (- 1)) (gravity * time_delta_s * time_delta_s * (1 / 2)))));
          rocket1 = fst moved;
          new_pos = snd moved;
          dir = sub3 new_pos (previous_position rocket1);
          max_distance = Length3 dir + c_length_eps
      in
      Option.bind
        (ProcessShot md ext m (previous_position rocket1) (Normalize3 dir) max_distance
           (owner_id rocket1))
        (\<lambda>hit_result.
           let hit_result1 =
                 (if reflect rocket_description \<and> object_type hit_result = ObjFloor \<and>
                     object_index hit_result = 0
                  then hit_result\<lparr>object_type := ObjNone\<rparr> else hit_result);
               trail = smoke_trail gr new_pos rocket1 m
           in Some ((fst trail)\<lparr>previous_position := new_pos\<rparr>, hit_result1, snd trail)))"

subsection \<open>Rockets: the effects of a hit\<close>

definition GenParticleEffectForRocketHit :: "GameResources \<Rightarrow> m_Vec3 \<Rightarrow> nat \<Rightarrow> Map \<Rightarrow> Map option" where
  "GenParticleEffectForRocketHit gr pos rocket_type m =
     (if \<not> rocket_type < length (rockets_description gr) then None
      else
        let description = rockets_description gr ! rocket_type;
            m1 =
              (if model_file_name_empty description then
                 (if rocket_blow_effect description = 1 then AddParticleEffect pos Bullet m else m)
               else
                 (let m2 = (if rocket_blow_effect description = 1 \<or>
                               rocket_blow_effect description = 3 \<or>
                               rocket_blow_effect description = 4
                            then AddParticleEffect pos Sparkles m else m)
                  in if rocket_blow_effect description = 2
                     then AddParticleEffect pos Explosion m2 else m2))
        in Some (PlayMapEventSound pos (RocketHitSound rocket_type) m1))"

definition GetNormalForWall :: "m_Vec2 \<Rightarrow> m_Vec2 \<Rightarrow> m_Vec3" where
  "GetNormalForWall v0 v1 =
     (let n = m_Vec3 (y2 v0 - y2 v1) (x2 v1 - x2 v0) 0
      in scale3 n (1 / Length2 (xy n)))"

text \<open>\<^verbatim>\<open>Map::ProcessElementLinks\<close> with a visitor that may fail.\<close>

fun ProcessElementLinks ::
  "MapData \<Rightarrow> IndexElementType \<Rightarrow> nat \<Rightarrow> (Link \<Rightarrow> Map \<Rightarrow> Map option) \<Rightarrow> Link list \<Rightarrow> Map \<Rightarrow> Map option" where
  "ProcessElementLinks md element_type idx func [] m = Some m"
| "ProcessElementLinks md element_type idx func (link # rest) m =
     (let index_element = map_index md (link_x link + link_y link * c_map_size md) in
      if el_type index_element = element_type \<and> el_index index_element = idx
      then Option.bind (func link m) (ProcessElementLinks md element_type idx func rest)
      else ProcessElementLinks md element_type idx func rest m)"

definition shoot_link :: "Time \<Rightarrow> Link \<Rightarrow> Map \<Rightarrow> Map option" where
  "shoot_link current_time link m =
     (if link_type link = Link_Shoot then ProcedureProcessShoot (proc_id link) current_time m else Some m)"

definition destroy_link :: "Time \<Rightarrow> Link \<Rightarrow> Map \<Rightarrow> Map option" where
  "destroy_link current_time link m =
     (if link_type link = Link_Destroy then ProcedureProcessDestroy (proc_id link) current_time m
      else Some m)"

text \<open>The particle effect of a hit (lines 1022 to 1050).\<close>

definition hit_particles ::
  "MapData \<Rightarrow> GameResources \<Rightarrow> bool \<Rightarrow> Rocket \<Rightarrow> HitResult \<Rightarrow> Map \<Rightarrow> Map option" where
  "hit_particles md gr has_infinite_speed rocket hit_result m =
     (let c_walls_effect_offset = 1 / 32 in
      if object_type hit_result = ObjStaticWall then
        (let wall = static_walls md ! object_index hit_result in
         GenParticleEffectForRocketHit gr
           (add3 (hit_pos hit_result)
              (scale3 (GetNormalForWall (vert_pos0 wall) (vert_pos1 wall)) c_walls_effect_offset))
           (rocket_type_id rocket) m)
      else if object_type hit_result = ObjDynamicWall then
        (let wall = dynamic_walls_st m ! object_index hit_result in
         GenParticleEffectForRocketHit gr
           (add3 (hit_pos hit_result)
              (scale3 (GetNormalForWall (dw_vert_pos0 wall) (dw_vert_pos1 wall)) c_walls_effect_offset))
           (rocket_type_id rocket) m)
      else if object_type hit_result = ObjFloor then
        GenParticleEffectForRocketHit gr
          (add3 (hit_pos hit_result)
             (m_Vec3 0 0 ((if object_index hit_result = 0 then 1 else - 1) * c_walls_effect_offset)))
          (rocket_type_id rocket) m
      else if object_type hit_result = ObjModel then
        GenParticleEffectForRocketHit gr (hit_pos hit_result) (rocket_type_id rocket) m
      else if object_type hit_result = ObjMonster then
        (let m1 = AddParticleEffect (hit_pos hit_result) Blood m in
         if rocket_blow_effect (rockets_description gr ! rocket_type_id rocket) = 2 \<and>
            \<not> has_infinite_speed
         then GenParticleEffectForRocketHit gr (hit_pos hit_result) (rocket_type_id rocket) m1
         else Some m1)
      else Some m)"

text \<open>
  Breaking models, the links of the hit object and the damage to a monster (lines 1052 to
  1117). An index out of \<^verbatim>\<open>static_models_\<close> is a failure.
\<close>

definition hit_damage ::
  "MapData \<Rightarrow> GameResources \<Rightarrow> Externals \<Rightarrow> Time \<Rightarrow> Rocket \<Rightarrow> HitResult \<Rightarrow> Map \<Rightarrow> Map option" where
  "hit_damage md gr ext current_time rocket hit_result m =
     (let rocket_description = rockets_description gr ! rocket_type_id rocket in
      if object_type hit_result = ObjModel then
        (if \<not> object_index hit_result < length (static_models_st m) then None
         else
           let model = static_models_st m ! object_index hit_result in
           if unat (model_id model) \<ge> length (models_description md) then Some m
           else
             let model_description = models_description md ! unat (model_id model) in
             Option.bind
               (ProcessElementLinks md IE_StaticModel (object_index hit_result)
                  (shoot_link current_time) (links md) m)
               (\<lambda>m1.
                  if blow_effect model_description \<noteq> 0 then
                    (let new_health = health (static_models_st m1 ! object_index hit_result) -
                                      power rocket_description;
                         m2 = m1\<lparr>static_models_st := (static_models_st m1)[object_index hit_result :=
                                 (static_models_st m1 ! object_index hit_result)\<lparr>health := new_health\<rparr>]\<rparr>
                     in if new_health \<le> 0 then
                          Option.bind (DestroyModel md (object_index hit_result) m2)
                            (ProcessElementLinks md IE_StaticModel (object_index hit_result)
                               (destroy_link current_time) (links md))
                        else Some m2)
                  else Some m1))
      else if object_type hit_result = ObjStaticWall \<or> object_type hit_result = ObjDynamicWall then
        ProcessElementLinks md
          (if object_type hit_result = ObjStaticWall then IE_StaticWall else IE_DynamicWall)
          (object_index hit_result) (shoot_link current_time) (links md) m
      else if object_type hit_result = ObjFloor then Some m
      else if object_type hit_result = ObjMonster then
        (case find (\<lambda>monster_value. fst monster_value = object_index hit_result) (monsters m) of
           None \<Rightarrow> None
         | Some monster_value \<Rightarrow>
             Some (m\<lparr>monsters :=
                      map (\<lambda>mv. if fst mv = object_index hit_result
                                then (fst mv, Monster_Hit ext (snd mv) (power rocket_description)
                                                current_time)
                                else mv)
                        (monsters m)\<rparr>))
      else Some m)"

text \<open>
  The body of the loop over the rockets for one rocket: the rocket after its flight, whether
  it is removed, and the map with the effects of the hit and the death message.
\<close>

definition rocket_body ::
  "MapData \<Rightarrow> GameConstants \<Rightarrow> GameResources \<Rightarrow> Externals \<Rightarrow> Time \<Rightarrow> real \<Rightarrow> Rocket \<Rightarrow> Map \<Rightarrow>
   (Rocket \<times> bool \<times> Map) option" where
  "rocket_body md gc gr ext current_time last_tick_delta_s rocket m =
     Option.bind (HasInfiniteSpeed gr rocket) (\<lambda>has_infinite_speed.
       let time_delta_s = current_time - start_time rocket in
       Option.bind
         (if has_infinite_speed
          then map_option (\<lambda>hit_result. (rocket, hit_result, m))
                 (ProcessShot md ext m (start_point rocket) (normalized_direction rocket) max_float
                    (owner_id rocket))
          else fly md gc gr ext current_time last_tick_delta_s rocket m)
         (\<lambda>(rocket1, hit_result, m1).
            Option.bind (hit_particles md gr has_infinite_speed rocket1 hit_result m1) (\<lambda>m2.
            Option.bind (hit_damage md gr ext current_time rocket1 hit_result m2) (\<lambda>m3.
              let remove = (object_type hit_result \<noteq> ObjNone \<or> time_delta_s > 16 \<or>
                            has_infinite_speed)
              in Some (rocket1, remove,
                       if remove \<and> \<not> has_infinite_speed
                       then m3\<lparr>rockets_death_messages :=
                               rockets_death_messages m3 @ [RocketDeath (rocket_id rocket1)]\<rparr>
                       else m3)))))"

text \<open>
  The loop over \<^verbatim>\<open>rockets_\<close>. Nothing in the body reads or writes the container but through
  the current rocket, so the loop carries the container beside the rest of the map.
\<close>

function rockets_loop ::
  "MapData \<Rightarrow> GameConstants \<Rightarrow> GameResources \<Rightarrow> Externals \<Rightarrow> Time \<Rightarrow> real \<Rightarrow> nat \<Rightarrow> Rocket list \<Rightarrow> Map \<Rightarrow>
   (Rocket list \<times> Map) option" where
  "rockets_loop md gc gr ext current_time last_tick_delta_s r rs m =
     (if r < length rs then
        (case rocket_body md gc gr ext current_time last_tick_delta_s (rs ! r) m of
           None \<Rightarrow> None
         | Some (rocket1, remove, m1) \<Rightarrow>
             if remove
             then rockets_loop md gc gr ext current_time last_tick_delta_s r (swap_remove r rs) m1
             else rockets_loop md gc gr ext current_time last_tick_delta_s (r + 1)
                    (rs[r := rocket1]) m1)
      else Some (rs, m))"
  by pat_completeness auto
termination
  by (relation "measure (\<lambda>(md, gc, gr, ext, t, dt, r, rs, m). length rs - r)")
     (auto simp: swap_remove_def)

definition Tick_rockets ::
  "MapData \<Rightarrow> GameConstants \<Rightarrow> GameResources \<Rightarrow> Externals \<Rightarrow> Time \<Rightarrow> real \<Rightarrow> Map \<Rightarrow> Map option" where
  "Tick_rockets md gc gr ext current_time last_tick_delta_s m =
     map_option (\<lambda>(rs, m1). m1\<lparr>rockets := rs\<rparr>)
       (rockets_loop md gc gr ext current_time last_tick_delta_s 0 (rockets m) m)"

text \<open>
  When a mine is due for removal, in the words of the specification: too old, or armed with a
  monster nearer than the activation margin plus its radius.
\<close>

definition mine_due ::
  "GameConstants \<Rightarrow> GameResources \<Rightarrow> Time \<Rightarrow> (nat \<times> MonsterBase) list \<Rightarrow> Mine \<Rightarrow> bool" where
  "mine_due gc gr current_time ms mine \<longleftrightarrow>
     current_time - planting_time mine > 30 \<or>
     (mines_preparation_time_s gc \<le> current_time - planting_time mine \<and>
      (\<exists>monster_value \<in> set ms.
         Length2 (sub2 (xy (Position (snd monster_value))) (xy (mine_pos mine)))
           < mines_activation_radius gc + monster_radius gc gr (snd monster_value)))"

subsection \<open>Example entities, resources and collaborators\<close>

definition example_resources :: GameResources where
  "example_resources =
     \<lparr>rockets_description =
        [\<lparr>model_file_name_empty = True, reflect = False, fast = False, Auto2 = False,
          gravity_force = 0, power = 10, rocket_blow_effect = 1, smoke_trail_effect_id = 0\<rparr>,
         \<lparr>model_file_name_empty = False, reflect = True, fast = False, Auto2 = False,
          gravity_force = 1, power = 50, rocket_blow_effect = 2, smoke_trail_effect_id = 0\<rparr>],
      monsters_w_radius = (\<lambda>i. 1)\<rparr>"

definition example_entity :: "nat \<Rightarrow> m_Vec3 \<Rightarrow> MonsterBase" where
  "example_entity monster_id pos =
     \<lparr>MonsterId = monster_id, Position = pos, Health = 100, GetZMinMax = m_Vec2 0 1\<rparr>"

definition example_externals :: Externals where
  "example_externals =
     \<lparr>CollideCircleWithLineSegment = (\<lambda>v0 v1 pos r. None),
      RayIntersectWall = (\<lambda>v0 v1 z_bottom z_top start dir. None),
      RayIntersectCylinder = (\<lambda>c r z_bottom z_top start dir. None),
      RayIntersectXYPlane = (\<lambda>z start dir. None),
      ProcessElementsInRadius = (\<lambda>pos r. [\<lparr>el_type = IE_StaticModel, el_index = 0\<rparr>]),
      RayCast = (\<lambda>start dir max_distance. []),
      TryShot = (\<lambda>monster start dir. None),
      Monster_Hit = (\<lambda>monster damage t. monster\<lparr>Health := Health monster - damage\<rparr>),
      Rotate = (\<lambda>axis angle v. v)\<rparr>"

definition example_mine :: "nat \<Rightarrow> m_Vec3 \<Rightarrow> Time \<Rightarrow> Mine" where
  "example_mine i pos t = \<lparr>mine_pos = pos, planting_time = t, mine_id = i\<rparr>"

section \<open>Properties of the procedures\<close>

lemma procedures_st_update_procedure [simp]:
  "procedures_st (update_procedure p f m) = (procedures_st m)[p := f (procedures_st m ! p)]"
  by (simp add: update_procedure_def)

lemma other_fields_update_procedure [simp]:
  "static_models_st (update_procedure p f m) = static_models_st m"
  "dynamic_walls_st (update_procedure p f m) = dynamic_walls_st m"
  "rockets (update_procedure p f m) = rockets m"
  "mines (update_procedure p f m) = mines m"
  "monsters (update_procedure p f m) = monsters m"
  by (simp_all add: update_procedure_def)

lemma same_motion_refl [simp]: "same_motion s s"
  by (simp add: same_motion_def)

lemma procs_same_motion_refl [simp]: "procs_same_motion ps ps"
  by (simp add: procs_same_motion_def)

lemma procs_same_motion_trans:
  "procs_same_motion a b \<Longrightarrow> procs_same_motion b c \<Longrightarrow> procs_same_motion a c"
  by (auto simp: procs_same_motion_def same_motion_def)

lemma nth_update_if:
  "i < length xs \<Longrightarrow> xs[q := v] ! i = (if i = q then v else xs ! i)"
  by (cases "i = q") simp_all

lemma procs_same_motion_locked:
  "procs_same_motion ps (ps[q := (ps ! q)\<lparr>locked := b\<rparr>])"
  by (simp add: procs_same_motion_def same_motion_def nth_update_if)

lemma ActivateProcedureSwitches_procedures:
  "ActivateProcedureSwitches md procedure ia t m = Some m' \<Longrightarrow>
     procedures_st m' = procedures_st m \<and> map_end_triggered m' = map_end_triggered m"
  by (auto simp: ActivateProcedureSwitches_def)

lemma EmitModelDestructionEffects_procedures:
  "EmitModelDestructionEffects md n m = Some m' \<Longrightarrow> procedures_st m' = procedures_st m"
  by (auto simp: EmitModelDestructionEffects_def Let_def AddParticleEffect_def
        PlayMapEventSound_def split: if_splits)

lemma DestroyModel_procedures:
  "DestroyModel md n m = Some m' \<Longrightarrow> procedures_st m' = procedures_st m"
  by (auto simp: DestroyModel_def Let_def split: if_splits Option.bind_splits
      dest: EmitModelDestructionEffects_procedures)

lemma do_immediate_command_motion:
  "do_immediate_command md sw command m = Some m' \<Longrightarrow>
     procs_same_motion (procedures_st m) (procedures_st m')"
  by (auto simp: do_immediate_command_def Let_def procs_same_motion_locked
      split: if_splits dest: DestroyModel_procedures)

lemma immediate_commands_loop_motion:
  "immediate_commands_loop md sw cs m = Some m' \<Longrightarrow>
     procs_same_motion (procedures_st m) (procedures_st m')"
proof (induction cs arbitrary: m)
  case Nil
  then show ?case by simp
next
  case (Cons c cs)
  then obtain m1 where 1: "do_immediate_command md sw c m = Some m1"
    and 2: "immediate_commands_loop md sw cs m1 = Some m'"
    by (auto split: Option.bind_splits)
  from do_immediate_command_motion[OF 1] Cons.IH[OF 2] show ?case
    by (rule procs_same_motion_trans)
qed

lemma stage_inv_mono: "stage_inv now s \<Longrightarrow> now \<le> now' \<Longrightarrow> stage_inv now' s"
  by (auto simp: stage_inv_def)

lemma stage_inv_same_motion: "same_motion s s' \<Longrightarrow> stage_inv now s \<Longrightarrow> stage_inv now s'"
  by (auto simp: stage_inv_def same_motion_def)

lemma new_stage_nonneg:
  "0 \<le> procedures_speed_scale gc \<Longrightarrow> 0 \<le> e \<Longrightarrow> 0 \<le> new_stage_of gc procedure e"
  by (simp add: new_stage_of_def)

text \<open>What one iteration of the loop does to the procedures.\<close>

lemma Tick_procedure_step:
  assumes "Tick_procedure md gc sw t p m = Some m'" and "p < length (procedures_st m)"
  shows "length (procedures_st m') = length (procedures_st m) \<and>
         (\<forall>i < length (procedures_st m). i \<noteq> p \<longrightarrow>
            same_motion (procedures_st m ! i) (procedures_st m' ! i)) \<and>
         (movement_state (procedures_st m' ! p) = movement_state (procedures_st m ! p) \<or>
          tick_edge (movement_state (procedures_st m ! p)) (movement_state (procedures_st m' ! p))) \<and>
         (0 \<le> procedures_speed_scale gc \<longrightarrow> stage_inv t (procedures_st m ! p) \<longrightarrow>
            stage_inv t (procedures_st m' ! p))"
proof (cases "movement_state (procedures_st m ! p)")
  case None'
  with assms show ?thesis
    by (auto simp: Tick_procedure_def Let_def split: if_splits)
next
  case StartWait
  show ?thesis
  proof (cases "t - last_state_change_time (procedures_st m ! p) \<ge> start_delay_s (procedures md ! p)")
    case True
    let ?m0 = "if end_delay_s (procedures md ! p) > 0 \<and>
                  t - last_state_change_time (procedures_st m ! p) \<ge> end_delay_s (procedures md ! p)
               then m\<lparr>map_end_triggered := True\<rparr> else m"
    from assms StartWait True obtain m1 m2 where
      1: "ActivateProcedureSwitches md (procedures md ! p) False t ?m0 = Some m1" and
      2: "DoProcedureImmediateCommands md sw (procedures md ! p) m1 = Some m2" and
      3: "m' = update_procedure p (\<lambda>s. s\<lparr>movement_state := Movement, movement_stage := 0,
                          last_state_change_time := t\<rparr>) m2"
      by (auto simp: Tick_procedure_def Let_def split: if_splits Option.bind_splits)
    have p0: "procedures_st ?m0 = procedures_st m" by simp
    from ActivateProcedureSwitches_procedures[OF 1] p0
    have p1: "procedures_st m1 = procedures_st m" by simp
    from 2 have "procs_same_motion (procedures_st m1) (procedures_st m2)"
      by (simp add: DoProcedureImmediateCommands_def immediate_commands_loop_motion)
    with p1 have sm: "procs_same_motion (procedures_st m) (procedures_st m2)" by simp
    then have len: "length (procedures_st m2) = length (procedures_st m)"
      by (simp add: procs_same_motion_def)
    show ?thesis
      using sm len assms(2) StartWait
      by (auto simp: 3 nth_update_if procs_same_motion_def same_motion_def tick_edge_def
          stage_inv_def)
  next
    case False
    with assms StartWait show ?thesis
      by (auto simp: Tick_procedure_def Let_def nth_update_if stage_inv_def same_motion_def
          new_stage_nonneg split: if_splits)
  qed
next
  case Movement
  with assms show ?thesis
    by (auto simp: Tick_procedure_def Let_def nth_update_if stage_inv_def same_motion_def
        new_stage_nonneg tick_edge_def DoProcedureDeactivationCommands_def split: if_splits)
next
  case BackWait
  show ?thesis
  proof (cases "back_wait_s (procedures md ! p) > 0 \<and>
      t - last_state_change_time (procedures_st m ! p) \<ge> back_wait_s (procedures md ! p)")
    case True
    let ?m0 = "if end_delay_s (procedures md ! p) > 0 \<and>
                  t - last_state_change_time (procedures_st m ! p) \<ge> end_delay_s (procedures md ! p)
               then m\<lparr>map_end_triggered := True\<rparr> else m"
    from assms BackWait True obtain m1 where
      1: "ActivateProcedureSwitches md (procedures md ! p) True t ?m0 = Some m1" and
      3: "m' = update_procedure p (\<lambda>s. s\<lparr>movement_state := ReverseMovement, movement_stage := 0,
                          last_state_change_time := t\<rparr>) m1"
      by (auto simp: Tick_procedure_def Let_def split: if_splits Option.bind_splits)
    have p0: "procedures_st ?m0 = procedures_st m" by simp
    from ActivateProcedureSwitches_procedures[OF 1] p0
    have p1: "procedures_st m1 = procedures_st m" by simp
    show ?thesis
      using p1 assms(2) BackWait
      by (auto simp: 3 nth_update_if same_motion_def tick_edge_def stage_inv_def)
  next
    case False
    with assms BackWait show ?thesis
      by (auto simp: Tick_procedure_def Let_def split: if_splits)
  qed
next
  case ReverseMovement
  with assms show ?thesis
    by (auto simp: Tick_procedure_def Let_def nth_update_if stage_inv_def same_motion_def
        new_stage_nonneg tick_edge_def split: if_splits)
qed

lemma procedures_loop_step:
  assumes "procedures_loop md gc sw t ps m = Some m'"
    and "distinct ps" and "\<forall>p \<in> set ps. p < length (procedures_st m)"
  shows "length (procedures_st m') = length (procedures_st m) \<and>
         (\<forall>i < length (procedures_st m).
            (i \<notin> set ps \<longrightarrow> same_motion (procedures_st m ! i) (procedures_st m' ! i)) \<and>
            (movement_state (procedures_st m' ! i) = movement_state (procedures_st m ! i) \<or>
             tick_edge (movement_state (procedures_st m ! i)) (movement_state (procedures_st m' ! i))) \<and>
            (0 \<le> procedures_speed_scale gc \<longrightarrow> stage_inv t (procedures_st m ! i) \<longrightarrow>
               stage_inv t (procedures_st m' ! i)))"
  using assms
proof (induction ps arbitrary: m)
  case Nil
  then show ?case by simp
next
  case (Cons p ps)
  from Cons.prems obtain m1 where
    1: "Tick_procedure md gc sw t p m = Some m1" and
    2: "procedures_loop md gc sw t ps m1 = Some m'"
    by (auto split: Option.bind_splits)
  from Cons.prems have p: "p < length (procedures_st m)" and np: "p \<notin> set ps"
    and d: "distinct ps" by auto
  note s1 = Tick_procedure_step[OF 1 p]
  from s1 have len1: "length (procedures_st m1) = length (procedures_st m)" by simp
  from Cons.prems len1 have "\<forall>q \<in> set ps. q < length (procedures_st m1)" by simp
  note s2 = Cons.IH[OF 2 d this]
  show ?case
  proof (intro conjI allI impI)
    show "length (procedures_st m') = length (procedures_st m)" using s2 len1 by simp
  next
    fix i assume i: "i < length (procedures_st m)" and "i \<notin> set (p # ps)"
    then have "i \<noteq> p" "i \<notin> set ps" by auto
    with s1 s2 i len1 show "same_motion (procedures_st m ! i) (procedures_st m' ! i)"
      by (auto simp: same_motion_def)
  next
    fix i assume i: "i < length (procedures_st m)"
    show "movement_state (procedures_st m' ! i) = movement_state (procedures_st m ! i) \<or>
          tick_edge (movement_state (procedures_st m ! i)) (movement_state (procedures_st m' ! i))"
    proof (cases "i = p")
      case True
      with s2 np p len1 have "movement_state (procedures_st m' ! p) = movement_state (procedures_st m1 ! p)"
        by (auto simp: same_motion_def)
      with s1 True show ?thesis by auto
    next
      case False
      with s1 i have "movement_state (procedures_st m1 ! i) = movement_state (procedures_st m ! i)"
        by (auto simp: same_motion_def)
      with s2 i len1 show ?thesis by auto
    qed
  next
    fix i assume i: "i < length (procedures_st m)" and sc: "0 \<le> procedures_speed_scale gc"
      and inv: "stage_inv t (procedures_st m ! i)"
    have "stage_inv t (procedures_st m1 ! i)"
    proof (cases "i = p")
      case True
      with s1 sc inv show ?thesis by auto
    next
      case False
      with s1 i have "same_motion (procedures_st m ! i) (procedures_st m1 ! i)" by auto
      from this inv show ?thesis by (rule stage_inv_same_motion)
    qed
    with s2 i len1 sc show "stage_inv t (procedures_st m' ! i)" by auto
  qed
qed

lemma Tick_procedures_step:
  assumes "Tick_procedures md gc sw t m = Some m'"
  shows "length (procedures_st m') = length (procedures_st m) \<and>
         (\<forall>i < length (procedures_st m).
            (movement_state (procedures_st m' ! i) = movement_state (procedures_st m ! i) \<or>
             tick_edge (movement_state (procedures_st m ! i)) (movement_state (procedures_st m' ! i))) \<and>
            (0 \<le> procedures_speed_scale gc \<longrightarrow> stage_inv t (procedures_st m ! i) \<longrightarrow>
               stage_inv t (procedures_st m' ! i)))"
  using procedures_loop_step[OF assms[unfolded Tick_procedures_def]] by simp

lemma list_all_nth: "list_all P xs \<longleftrightarrow> (\<forall>i < length xs. P (xs ! i))"
  by (simp add: list_all_iff all_set_conv_all_nth)

lemma update_step:
  assumes inv: "procs_inv md t' m"
    and upd: "procedures_st m' = (procedures_st m)[p := s']"
    and s': "p < length (procedures_st m) \<Longrightarrow>
       stage_inv t' s' \<and>
       (movement_state s' = movement_state (procedures_st m ! p) \<or>
        allowed_edge (movement_state (procedures_st m ! p)) (movement_state s'))"
  shows "procs_inv md t' m' \<and>
         (\<forall>i < length (procedures_st m).
            movement_state (procedures_st m' ! i) = movement_state (procedures_st m ! i) \<or>
            allowed_edge (movement_state (procedures_st m ! i)) (movement_state (procedures_st m' ! i)))"
proof (cases "p < length (procedures_st m)")
  case False
  then have "procedures_st m' = procedures_st m" using upd by (simp add: list_update_beyond)
  with inv show ?thesis by (simp add: procs_inv_def)
next
  case True
  note sp = s'[OF True]
  have "stage_inv t' (procedures_st m' ! i)" if "i < length (procedures_st m)" for i
    using that inv sp by (cases "i = p") (simp_all add: upd procs_inv_def list_all_nth)
  moreover have "movement_state (procedures_st m' ! i) = movement_state (procedures_st m ! i) \<or>
            allowed_edge (movement_state (procedures_st m ! i)) (movement_state (procedures_st m' ! i))"
    if "i < length (procedures_st m)" for i
    using that sp by (cases "i = p") (simp_all add: upd)
  ultimately show ?thesis using inv by (simp add: procs_inv_def list_all_nth upd)
qed

lemma stage_inv_activated:
  "stage_inv t (s\<lparr>movement_stage := 0, movement_state := StartWait, last_state_change_time := t\<rparr>)"
  by (simp add: stage_inv_def)

lemma stage_inv_flags:
  "stage_inv t (s\<lparr>first_message_printed := b\<rparr>) = stage_inv t s"
  "stage_inv t (s\<lparr>locked := b\<rparr>) = stage_inv t s"
  by (simp_all add: stage_inv_def)

lemma TryActivateProcedure_step:
  assumes "TryActivateProcedure md p t player m = Some (m', msgs)" and "procs_inv md t m"
  shows "\<exists>s'. procedures_st m' = (procedures_st m)[p := s'] \<and>
     (p < length (procedures_st m) \<longrightarrow> stage_inv t s' \<and>
       (movement_state s' = movement_state (procedures_st m ! p) \<or>
        allowed_edge (movement_state (procedures_st m ! p)) (movement_state s')))"
proof (cases "Player_TryActivateProcedure player p t \<and> p < length (procedures_st m)")
  case False
  with assms(1) have "procedures_st m' = procedures_st m"
    by (auto simp: TryActivateProcedure_def split: if_splits)
  then have "procedures_st m' = (procedures_st m)[p := procedures_st m ! p]" by simp
  moreover have "p < length (procedures_st m) \<Longrightarrow> stage_inv t (procedures_st m ! p)"
    using assms(2) by (simp add: procs_inv_def list_all_nth)
  ultimately show ?thesis by blast
next
  case True
  then have p: "p < length (procedures_st m)" by simp
  have si: "stage_inv t (procedures_st m ! p)"
    using assms(2) p by (simp add: procs_inv_def list_all_nth)
  let ?s = "procedures_st m ! p"
  let ?act = "have_necessary_keys (procedures md ! p) player \<and> \<not> locked ?s \<and> movement_state ?s = None'"
  let ?s1 = "if ?act then ?s\<lparr>movement_stage := 0, movement_state := StartWait,
                last_state_change_time := t\<rparr> else ?s"
  let ?first = "first_message_number (procedures md ! p) \<noteq> 0 \<and> \<not> first_message_printed ?s"
  let ?s2 = "if ?first then ?s1\<lparr>first_message_printed := True\<rparr> else ?s1"
  let ?m1 = "if ?act then ActivateProcedure p t m else m"
  let ?m2 = "if ?first then update_procedure p (\<lambda>s. s\<lparr>first_message_printed := True\<rparr>) ?m1 else ?m1"
  from assms(1) True have "m' = ?m2"
    by (simp add: TryActivateProcedure_def Let_def)
  moreover have "procedures_st ?m2 = (procedures_st m)[p := ?s2]"
    using p by (simp add: ActivateProcedure_def)
  ultimately have "procedures_st m' = (procedures_st m)[p := ?s2]" by simp
  moreover have "stage_inv t ?s2"
    using si by (simp add: stage_inv_flags stage_inv_activated)
  moreover have "movement_state ?s2 = movement_state ?s \<or> allowed_edge (movement_state ?s) (movement_state ?s2)"
    by (simp add: allowed_edge_def)
  ultimately show ?thesis by blast
qed

lemma ReturnProcedure_step:
  assumes "ReturnProcedure md gc p t m = Some m'" and "procs_inv md t m"
  shows "\<exists>s'. procedures_st m' = (procedures_st m)[p := s'] \<and>
     (p < length (procedures_st m) \<longrightarrow> stage_inv t s' \<and>
       (movement_state s' = movement_state (procedures_st m ! p) \<or>
        allowed_edge (movement_state (procedures_st m ! p)) (movement_state s')))"
proof -
  from assms(1) have p: "p < length (procedures_st m)"
    using assms(2) by (auto simp: ReturnProcedure_def procs_inv_def split: if_splits)
  have si: "stage_inv t (procedures_st m ! p)"
    using assms(2) p by (simp add: procs_inv_def list_all_nth)
  let ?s = "procedures_st m ! p"
  have same: "procedures_st m = (procedures_st m)[p := ?s]" by simp
  show ?thesis
  proof (cases "locked ?s")
    case True
    with assms(1) have "m' = m" by (auto simp: ReturnProcedure_def Let_def split: if_splits)
    with same si show ?thesis by metis
  next
    case False
    show ?thesis
    proof (cases "movement_state ?s")
      case None'
      with assms(1) False have "m' = m"
        by (auto simp: ReturnProcedure_def Let_def split: if_splits)
      with same si show ?thesis by metis
    next
      case ReverseMovement
      with assms(1) False have "m' = m"
        by (auto simp: ReturnProcedure_def Let_def split: if_splits)
      with same si show ?thesis by metis
    next
      case StartWait
      with assms(1) False have "procedures_st m' = (procedures_st m)[p := ?s\<lparr>movement_state := None'\<rparr>]"
        by (auto simp: ReturnProcedure_def Let_def split: if_splits)
      moreover have "stage_inv t (?s\<lparr>movement_state := None'\<rparr>)"
        using si by (simp add: stage_inv_def)
      moreover have "allowed_edge (movement_state ?s) (movement_state (?s\<lparr>movement_state := None'\<rparr>))"
        using StartWait by (simp add: allowed_edge_def claimed_edge_def return_edge_def)
      ultimately show ?thesis by blast
    next
      case BackWait
      let ?s' = "?s\<lparr>movement_state := ReverseMovement, last_state_change_time := t\<rparr>"
      from BackWait assms(1) False have "procedures_st m' = (procedures_st m)[p := ?s']"
        by (auto simp: ReturnProcedure_def Let_def split: if_splits)
      moreover have "stage_inv t ?s'"
        using si BackWait by (simp add: stage_inv_def)
      moreover have "allowed_edge (movement_state ?s) (movement_state ?s')"
        using BackWait by (simp add: allowed_edge_def claimed_edge_def return_edge_def)
      ultimately show ?thesis by blast
    next
      case Movement
      let ?dt = "if speed (procedures md ! p) > 0
                 then max (1 / (speed (procedures md ! p) * procedures_speed_scale gc) -
                           (t - last_state_change_time ?s)) 0
                 else 0"
      let ?s' = "?s\<lparr>movement_state := ReverseMovement, last_state_change_time := t - ?dt\<rparr>"
      from Movement assms(1) False have "procedures_st m' = (procedures_st m)[p := ?s']"
        by (auto simp: ReturnProcedure_def Let_def split: if_splits)
      moreover have "stage_inv t ?s'"
        using si Movement by (simp add: stage_inv_def)
      moreover have "allowed_edge (movement_state ?s) (movement_state ?s')"
        using Movement by (simp add: allowed_edge_def claimed_edge_def return_edge_def)
      ultimately show ?thesis by blast
    qed
  qed
qed

lemma ProcedureProcessShoot_step:
  assumes "ProcedureProcessShoot p t m = Some m'" and "procs_inv md t m"
  shows "\<exists>s'. procedures_st m' = (procedures_st m)[p := s'] \<and>
     (p < length (procedures_st m) \<longrightarrow> stage_inv t s' \<and>
       (movement_state s' = movement_state (procedures_st m ! p) \<or>
        allowed_edge (movement_state (procedures_st m ! p)) (movement_state s')))"
proof -
  from assms(1) have p: "p < length (procedures_st m)"
    by (auto simp: ProcedureProcessShoot_def split: if_splits)
  have si: "stage_inv t (procedures_st m ! p)"
    using assms(2) p by (simp add: procs_inv_def list_all_nth)
  let ?s = "procedures_st m ! p"
  let ?s' = "if movement_state ?s \<noteq> None' \<or> locked ?s then ?s
             else ?s\<lparr>movement_stage := 0, movement_state := StartWait, last_state_change_time := t\<rparr>"
  from assms(1) p have "procedures_st m' = (procedures_st m)[p := ?s']"
    by (auto simp: ProcedureProcessShoot_def Let_def ActivateProcedure_def split: if_splits)
  moreover have "stage_inv t ?s'" using si by (simp add: stage_inv_activated)
  moreover have "movement_state ?s' = movement_state ?s \<or>
      allowed_edge (movement_state ?s) (movement_state ?s')"
    by (simp add: allowed_edge_def)
  ultimately show ?thesis by blast
qed

lemma ProcedureProcessDestroy_step:
  assumes "ProcedureProcessDestroy p t m = Some m'"
  shows "\<exists>s'. procedures_st m' = (procedures_st m)[p := s'] \<and>
     (p < length (procedures_st m) \<longrightarrow> stage_inv t s' \<and>
       (movement_state s' = movement_state (procedures_st m ! p) \<or>
        allowed_edge (movement_state (procedures_st m ! p)) (movement_state s')))"
proof -
  from assms(1) have p: "p < length (procedures_st m)"
    by (auto simp: ProcedureProcessDestroy_def split: if_splits)
  let ?s = "procedures_st m ! p"
  let ?s' = "?s\<lparr>locked := False, movement_stage := 0, movement_state := StartWait,
                  last_state_change_time := t\<rparr>"
  from assms(1) p have "procedures_st m' = (procedures_st m)[p := ?s']"
    by (auto simp: ProcedureProcessDestroy_def Let_def ActivateProcedure_def split: if_splits)
  moreover have "stage_inv t ?s'" by (simp add: stage_inv_def)
  moreover have "allowed_edge (movement_state ?s) (movement_state ?s')"
    by (simp add: allowed_edge_def)
  ultimately show ?thesis by blast
qed

text \<open>Every operation keeps the invariant and moves each procedure along an allowed edge.\<close>

lemma operation_step:
  assumes op: "operation md gc sw t' m m'" and inv: "procs_inv md t m" and le: "t \<le> t'"
    and sc: "0 \<le> procedures_speed_scale gc"
  shows "procs_inv md t' m' \<and>
         (\<forall>i < length (procedures_st m).
            movement_state (procedures_st m' ! i) = movement_state (procedures_st m ! i) \<or>
            allowed_edge (movement_state (procedures_st m ! i)) (movement_state (procedures_st m' ! i)))"
proof -
  from inv le have inv': "procs_inv md t' m"
    by (auto simp: procs_inv_def list_all_nth intro: stage_inv_mono)
  from op show ?thesis
  proof cases
    case tick
    note st = Tick_procedures_step[OF tick]
    from st have len: "length (procedures_st m') = length (procedures_st m)" by simp
    have "stage_inv t' (procedures_st m' ! i)" if "i < length (procedures_st m)" for i
      using st that inv' sc by (simp add: procs_inv_def list_all_nth)
    moreover have "movement_state (procedures_st m' ! i) = movement_state (procedures_st m ! i) \<or>
            allowed_edge (movement_state (procedures_st m ! i)) (movement_state (procedures_st m' ! i))"
      if "i < length (procedures_st m)" for i
      using st that by (auto simp: allowed_edge_def claimed_edge_def)
    ultimately show ?thesis using inv' len by (simp add: procs_inv_def list_all_nth)
  next
    case (try_activate p player msgs)
    from TryActivateProcedure_step[OF try_activate inv'] obtain s' where
      "procedures_st m' = (procedures_st m)[p := s']"
      "p < length (procedures_st m) \<longrightarrow> stage_inv t' s' \<and>
       (movement_state s' = movement_state (procedures_st m ! p) \<or>
        allowed_edge (movement_state (procedures_st m ! p)) (movement_state s'))" by blast
    with update_step[OF inv', of m' p s'] show ?thesis by blast
  next
    case (return p)
    from ReturnProcedure_step[OF return inv'] obtain s' where
      "procedures_st m' = (procedures_st m)[p := s']"
      "p < length (procedures_st m) \<longrightarrow> stage_inv t' s' \<and>
       (movement_state s' = movement_state (procedures_st m ! p) \<or>
        allowed_edge (movement_state (procedures_st m ! p)) (movement_state s'))" by blast
    with update_step[OF inv', of m' p s'] show ?thesis by blast
  next
    case (shoot p)
    from ProcedureProcessShoot_step[OF shoot inv'] obtain s' where
      "procedures_st m' = (procedures_st m)[p := s']"
      "p < length (procedures_st m) \<longrightarrow> stage_inv t' s' \<and>
       (movement_state s' = movement_state (procedures_st m ! p) \<or>
        allowed_edge (movement_state (procedures_st m ! p)) (movement_state s'))" by blast
    with update_step[OF inv', of m' p s'] show ?thesis by blast
  next
    case (destroy p)
    from ProcedureProcessDestroy_step[OF destroy] obtain s' where
      "procedures_st m' = (procedures_st m)[p := s']"
      "p < length (procedures_st m) \<longrightarrow> stage_inv t' s' \<and>
       (movement_state s' = movement_state (procedures_st m ! p) \<or>
        allowed_edge (movement_state (procedures_st m ! p)) (movement_state s'))" by blast
    with update_step[OF inv', of m' p s'] show ?thesis by blast
  next
    case other
    with inv' show ?thesis by (simp add: procs_inv_def)
  qed
qed

lemma reachable_inv:
  assumes "reachable md gc sw t m" and "0 \<le> procedures_speed_scale gc"
  shows "procs_inv md t m"
  using assms
proof (induction rule: reachable.induct)
  case (constructed m t)
  then show ?case
    by (simp add: procs_inv_def initial_procedures_def list_all_iff stage_inv_def)
next
  case (step t m t' m')
  with operation_step[of md gc sw t' m m' t] show ?case by simp
qed

lemma switch_targets_Nil [simp]: "switch_targets md [] = {}"
  by (simp add: switch_targets_def)

lemma switch_targets_Cons:
  "switch_targets md ((x, y) # sws) =
     (if x < c_map_size md \<and> y < c_map_size md \<and>
         el_type (map_index md (x + y * c_map_size md)) = IE_StaticModel
      then insert (el_index (map_index md (x + y * c_map_size md))) (switch_targets md sws)
      else switch_targets md sws)"
  by (auto simp: switch_targets_def)

lemma switch_model_not_SingleFrame [simp]:
  "animation_state (switch_model md ia t model) \<noteq> SingleFrame"
  by (simp add: switch_model_def)

lemma switches_loop_result:
  assumes "switches_loop md ia t sws sm = Some sm'"
  shows "length sm' = length sm \<and>
         (\<forall>j < length sm. sm' ! j =
            (if j \<in> switch_targets md sws \<and> animation_state (sm ! j) = SingleFrame
             then switch_model md ia t (sm ! j) else sm ! j))"
  using assms
proof (induction sws arbitrary: sm)
  case Nil
  then show ?case by simp
next
  case (Cons xy sws)
  obtain x y where xy: "xy = (x, y)" by (cases xy)
  show ?case
  proof (cases "x < c_map_size md \<and> y < c_map_size md \<and>
         el_type (map_index md (x + y * c_map_size md)) = IE_StaticModel")
    case False
    with Cons.prems xy have "switches_loop md ia t sws sm = Some sm'"
      by (auto simp: Let_def split: if_splits)
    from Cons.IH[OF this] False xy show ?thesis
      by (auto simp: switch_targets_Cons)
  next
    case True
    let ?k = "el_index (map_index md (x + y * c_map_size md))"
    from True Cons.prems xy have k: "?k < length sm"
      by (auto simp: Let_def split: if_splits)
    show ?thesis
    proof (cases "animation_state (sm ! ?k) = SingleFrame")
      case sf: True
      with True Cons.prems xy k
      have "switches_loop md ia t sws (sm[?k := switch_model md ia t (sm ! ?k)]) = Some sm'"
        by (auto simp: Let_def split: if_splits)
      from Cons.IH[OF this] True xy k sf show ?thesis
        by (auto simp: switch_targets_Cons nth_update_if)
    next
      case nsf: False
      with True Cons.prems xy k have "switches_loop md ia t sws sm = Some sm'"
        by (auto simp: Let_def split: if_splits)
      from Cons.IH[OF this] True xy k nsf show ?thesis
        by (auto simp: switch_targets_Cons)
    qed
  qed
qed

lemma switches_loop_total:
  assumes "\<forall>j \<in> switch_targets md sws. j < length sm"
  shows "\<exists>sm'. switches_loop md ia t sws sm = Some sm'"
  using assms
proof (induction sws arbitrary: sm)
  case Nil
  then show ?case by simp
next
  case (Cons xy sws)
  obtain x y where xy: "xy = (x, y)" by (cases xy)
  from Cons.prems xy have rest: "\<forall>j \<in> switch_targets md sws. j < length sm"
    by (auto simp: switch_targets_Cons split: if_splits)
  then have rest': "\<forall>j \<in> switch_targets md sws. j < length (sm[k := v])" for k v by simp
  from Cons.IH[OF rest] Cons.IH[OF rest'] Cons.prems xy show ?case
    by (auto simp: Let_def switch_targets_Cons split: if_splits)
qed

lemma Tick_procedure_BackWait:
  assumes "p < length (procedures_st m)"
    and "movement_state (procedures_st m ! p) = BackWait"
    and "0 < back_wait_s (procedures md ! p)"
    and "back_wait_s (procedures md ! p) \<le> t - last_state_change_time (procedures_st m ! p)"
    and "Tick_procedure md gc sw t p m = Some m1"
  shows "movement_state (procedures_st m1 ! p) = ReverseMovement \<and>
         movement_stage (procedures_st m1 ! p) = 0 \<and>
         last_state_change_time (procedures_st m1 ! p) = t"
  using assms
  by (auto simp: Tick_procedure_def Let_def split: if_splits Option.bind_splits
      dest!: ActivateProcedureSwitches_procedures)

lemma procedures_loop_BackWait:
  assumes "procedures_loop md gc sw t ps m = Some m'"
    and "distinct ps" and "\<forall>q \<in> set ps. q < length (procedures_st m)" and "p \<in> set ps"
    and "movement_state (procedures_st m ! p) = BackWait"
    and "0 < back_wait_s (procedures md ! p)"
    and "back_wait_s (procedures md ! p) \<le> t - last_state_change_time (procedures_st m ! p)"
  shows "movement_state (procedures_st m' ! p) = ReverseMovement \<and>
         movement_stage (procedures_st m' ! p) = 0 \<and>
         last_state_change_time (procedures_st m' ! p) = t"
  using assms
proof (induction ps arbitrary: m)
  case Nil
  then show ?case by simp
next
  case (Cons q ps)
  from Cons.prems obtain m1 where
    1: "Tick_procedure md gc sw t q m = Some m1" and
    2: "procedures_loop md gc sw t ps m1 = Some m'"
    by (auto split: Option.bind_splits)
  from Cons.prems have q: "q < length (procedures_st m)" and nq: "q \<notin> set ps"
    and d: "distinct ps" and p: "p < length (procedures_st m)" by auto
  note s1 = Tick_procedure_step[OF 1 q]
  from s1 have len1: "length (procedures_st m1) = length (procedures_st m)" by simp
  from Cons.prems len1 have all: "\<forall>r \<in> set ps. r < length (procedures_st m1)" by simp
  show ?case
  proof (cases "q = p")
    case True
    from Tick_procedure_BackWait[OF p Cons.prems(5,6,7) 1[unfolded True]]
    have r: "movement_state (procedures_st m1 ! p) = ReverseMovement \<and>
         movement_stage (procedures_st m1 ! p) = 0 \<and>
         last_state_change_time (procedures_st m1 ! p) = t" .
    from procedures_loop_step[OF 2 d all] nq True p len1
    have "same_motion (procedures_st m1 ! p) (procedures_st m' ! p)" by auto
    with r show ?thesis by (simp add: same_motion_def)
  next
    case False
    with s1 p have sm: "same_motion (procedures_st m ! p) (procedures_st m1 ! p)" by auto
    from False Cons.prems have "p \<in> set ps" by simp
    from Cons.IH[OF 2 d all this] sm Cons.prems(5,6,7) show ?thesis
      by (simp add: same_motion_def)
  qed
qed


lemma Tick_procedure_Movement:
  assumes "p < length (procedures_st m)" and "movement_state (procedures_st m ! p) = Movement"
  shows "\<exists>a. Tick_procedure md gc sw t p m = Some a \<and>
     absolute_action_stage (procedures_st a ! p) =
       (if new_stage_of gc (procedures md ! p) (t - last_state_change_time (procedures_st m ! p)) \<ge> 1
        then 1
        else new_stage_of gc (procedures md ! p) (t - last_state_change_time (procedures_st m ! p)))"
  using assms
  by (simp add: Tick_procedure_def Let_def absolute_action_stage_def
      DoProcedureDeactivationCommands_def)

lemma Tick_procedure_ReverseMovement:
  assumes "p < length (procedures_st m)" and "movement_state (procedures_st m ! p) = ReverseMovement"
  shows "\<exists>b. Tick_procedure md gc sw t p m = Some b \<and>
     absolute_action_stage (procedures_st b ! p) =
       (if new_stage_of gc (procedures md ! p) (t - last_state_change_time (procedures_st m ! p)) \<ge> 1
        then 0
        else 1 - new_stage_of gc (procedures md ! p) (t - last_state_change_time (procedures_st m ! p)))"
  using assms
  by (simp add: Tick_procedure_def Let_def absolute_action_stage_def)

text \<open>The arithmetic of the synthetic time of \<^verbatim>\<open>ReturnProcedure\<close>.\<close>

lemma reverse_stage_continuous:
  fixes e k :: real
  assumes k: "0 < k" and e: "0 \<le> e"
  shows "(if max (1 / k - e) 0 * k \<ge> 1 then 0 else 1 - max (1 / k - e) 0 * k) =
         (if e * k \<ge> 1 then 1 else e * k)"
proof (cases "e * k \<ge> 1")
  case True
  then have "1 / k \<le> e" using k by (simp add: field_simps)
  then have "max (1 / k - e) 0 = 0" by simp
  with True show ?thesis by simp
next
  case False
  then have "e < 1 / k" using k by (simp add: field_simps)
  then have m: "max (1 / k - e) 0 = 1 / k - e" by simp
  have eq: "(1 / k - e) * k = 1 - e * k" using k by (simp add: field_simps)
  have nn: "0 \<le> e * k" using e k by simp
  show ?thesis
  proof (cases "e * k \<le> 0")
    case True
    with nn have "e * k = 0" by linarith
    with m eq False show ?thesis by (simp del: mult_eq_0_iff)
  next
    case pos: False
    with m eq False show ?thesis by (simp del: mult_eq_0_iff)
  qed
qed


lemmas example_defs =
  example_constants_def example_procedure_def example_map_data_def example_procedure_state_def
  example_switch_def example_map_def example_player_def

text \<open>A run of the example level: destroyed at 0, ticked at 2 and 3, destroyed again at 3.\<close>

lemma example_run:
  "ProcedureProcessDestroy 0 0 (example_map (example_procedure_state None' 0 0) (example_switch SingleFrame 0))
     = Some (example_map (example_procedure_state StartWait 0 0) (example_switch SingleFrame 0))"
  "Tick_procedures example_map_data example_constants 1 2
     (example_map (example_procedure_state StartWait 0 0) (example_switch SingleFrame 0))
     = Some (example_map (example_procedure_state StartWait 2 0) (example_switch SingleFrame 0))"
  "Tick_procedures example_map_data example_constants 1 3
     (example_map (example_procedure_state StartWait 2 0) (example_switch SingleFrame 0))
     = Some (example_map (example_procedure_state Movement 0 3) (example_switch SingleAnimation 3))"
  "ProcedureProcessDestroy 0 3 (example_map (example_procedure_state Movement 0 3) (example_switch SingleAnimation 3))
     = Some (example_map (example_procedure_state StartWait 0 3) (example_switch SingleAnimation 3))"
  by (simp_all add: example_defs ProcedureProcessDestroy_def ActivateProcedure_def
      update_procedure_def Tick_procedures_def Tick_procedure_def new_stage_of_def Let_def
      ActivateProcedureSwitches_def DoProcedureImmediateCommands_def switch_model_def)

lemma example_reachable:
  "reachable example_map_data example_constants 1 0
     (example_map (example_procedure_state None' 0 0) (example_switch SingleFrame 0))"
  "reachable example_map_data example_constants 1 2
     (example_map (example_procedure_state StartWait 2 0) (example_switch SingleFrame 0))"
  "reachable example_map_data example_constants 1 3
     (example_map (example_procedure_state Movement 0 3) (example_switch SingleAnimation 3))"
proof -
  show 0: "reachable example_map_data example_constants 1 0
     (example_map (example_procedure_state None' 0 0) (example_switch SingleFrame 0))"
    by (rule reachable.constructed) (simp add: example_defs initial_procedures_def)
  have 1: "reachable example_map_data example_constants 1 0
     (example_map (example_procedure_state StartWait 0 0) (example_switch SingleFrame 0))"
    by (rule reachable.step[OF 0 _ operation.destroy[OF example_run(1)]]) simp
  show 2: "reachable example_map_data example_constants 1 2
     (example_map (example_procedure_state StartWait 2 0) (example_switch SingleFrame 0))"
    by (rule reachable.step[OF 1 _ operation.tick[OF example_run(2)]]) simp
  show "reachable example_map_data example_constants 1 3
     (example_map (example_procedure_state Movement 0 3) (example_switch SingleAnimation 3))"
    by (rule reachable.step[OF 2 _ operation.tick[OF example_run(3)]]) simp
qed

section \<open>The claims about procedures\<close>

text \<open>
  C8. An activation attempt that the player controller permits: if a required key is missing
  or the procedure is locked, the movement state is left as it was (so an idle procedure
  stays \<^verbatim>\<open>None\<close>) and the lock message, when the procedure has one, is among the text
  messages sent; and the procedure enters \<^verbatim>\<open>StartWait\<close> exactly when the keys are there, it
  is unlocked and its state is \<^verbatim>\<open>None\<close>.
\<close>
theorem TryActivateProcedure_key_gate:
  assumes "Player_TryActivateProcedure player p t" and "p < length (procedures_st m)"
  shows "\<exists>m' msgs. TryActivateProcedure md p t player m = Some (m', msgs) \<and>
     (\<not> have_necessary_keys (procedures md ! p) player \<or> locked (procedures_st m ! p) \<longrightarrow>
        movement_state (procedures_st m' ! p) = movement_state (procedures_st m ! p) \<and>
        (lock_message_number (procedures md ! p) \<noteq> 0 \<longrightarrow>
           TextMessage (lock_message_number (procedures md ! p)) \<in> set msgs)) \<and>
     (movement_state (procedures_st m ! p) \<noteq> StartWait \<and>
      movement_state (procedures_st m' ! p) = StartWait
      \<longleftrightarrow> have_necessary_keys (procedures md ! p) player \<and> \<not> locked (procedures_st m ! p) \<and>
          movement_state (procedures_st m ! p) = None')"
  using assms
  by (auto simp: TryActivateProcedure_def ActivateProcedure_def Let_def)

theorem TryActivateProcedure_key_gate_witness:
  "\<exists>m' msgs. TryActivateProcedure example_map_data 0 0 example_player
       (example_map (example_procedure_state None' 0 0) (example_switch SingleFrame 0)) = Some (m', msgs) \<and>
     movement_state (procedures_st m' ! 0) = None' \<and> TextMessage 5 \<in> set msgs"
proof -
  let ?M = "example_map (example_procedure_state None' 0 0) (example_switch SingleFrame 0)"
  have h1: "Player_TryActivateProcedure example_player 0 0"
    by (simp add: example_player_def)
  have h2: "0 < length (procedures_st ?M)" by (simp add: example_map_def)
  have k: "\<not> have_necessary_keys (procedures example_map_data ! 0) example_player"
    by (simp add: have_necessary_keys_def example_map_data_def example_procedure_def
        example_player_def)
  have st: "movement_state (procedures_st ?M ! 0) = None'"
    by (simp add: example_map_def example_procedure_state_def)
  have lm: "lock_message_number (procedures example_map_data ! 0) = 5"
    by (simp add: example_map_data_def example_procedure_def)
  from TryActivateProcedure_key_gate[OF h1 h2, of example_map_data] k st lm
  show ?thesis by auto
qed







section \<open>Properties of collision with the map\<close>

lemma elements_loop_total:
  assumes "\<forall>e \<in> set es. \<forall>st. \<exists>st'. f e st = Some st'"
  shows "\<exists>st'. elements_loop f es st = Some st'"
  using assms
proof (induction es arbitrary: st)
  case Nil
  then show ?case by simp
next
  case (Cons e es)
  then obtain st1 where "f e st = Some st1" by fastforce
  with Cons show ?case by simp
qed

lemma elements_process_func_total:
  assumes "el_type e = IE_StaticWall \<longrightarrow> el_index e < length (static_walls md)"
    and "el_type e = IE_StaticModel \<longrightarrow> el_index e < length sm"
  shows "\<exists>st'. elements_process_func md gc ext sm height radius z_bottom z_top e st = Some st'"
proof (cases st)
  case (fields pos new_z out_on_floor)
  show ?thesis
  proof (cases "el_type e = IE_StaticWall")
    case True
    with assms fields show ?thesis
      by (auto simp: elements_process_func_def Let_def split: option.split)
  next
    case nw: False
    show ?thesis
    proof (cases "el_type e = IE_StaticModel")
      case True
      with assms fields nw show ?thesis
        by (auto simp: elements_process_func_def Let_def)
    next
      case False
      with fields nw show ?thesis
        by (simp add: elements_process_func_def)
    qed
  qed
qed

section \<open>Collision with the map\<close>



section \<open>Mines\<close>

declare Tick_mines_loop.simps [simp del]

lemma length_swap_remove: "i < length xs \<Longrightarrow> length (swap_remove i xs) = length xs - 1"
  by (simp add: swap_remove_def)

lemma take_swap_remove: "i < length xs \<Longrightarrow> take i (swap_remove i xs) = take i xs"
  by (simp add: swap_remove_def take_butlast)

lemma mset_swap_remove:
  assumes "i < length xs"
  shows "mset (swap_remove i xs) = mset xs - {#xs ! i#}"
proof (cases "i = length xs - 1")
  case True
  from assms have ne: "xs \<noteq> []" by auto
  then have "mset xs = mset (butlast xs) + {#last xs#}"
    by (metis append_butlast_last_id mset.simps(1) mset.simps(2) mset_append add_mset_add_single
        union_mset_add_mset_right add.right_neutral)
  moreover have "xs ! i = last xs" using True ne by (simp add: last_conv_nth)
  ultimately show ?thesis using True by (simp add: swap_remove_def)
next
  case False
  let ?ys = "xs[i := last xs]"
  from assms have ne: "?ys \<noteq> []" by auto
  have "xs \<noteq> []" using assms by auto
  then have l: "last ?ys = last xs" using False by (simp add: last_list_update)
  have "mset ?ys = mset (butlast ?ys) + {#last ?ys#}"
    using ne
    by (metis append_butlast_last_id mset.simps(1) mset.simps(2) mset_append add_mset_add_single
        union_mset_add_mset_right add.right_neutral)
  then have "mset (butlast ?ys) = mset ?ys - {#last xs#}" using l by simp
  also have "mset ?ys = add_mset (last xs) (mset xs - {#xs ! i#})"
    using assms by (simp add: mset_update)
  finally show ?thesis using False by (simp add: swap_remove_def)
qed

lemma mset_drop_swap_remove:
  assumes "i < length xs"
  shows "mset (drop i (swap_remove i xs)) = mset (drop (Suc i) xs)"
proof -
  have a: "mset (swap_remove i xs) =
      mset (take i (swap_remove i xs)) + mset (drop i (swap_remove i xs))"
    by (metis append_take_drop_id mset_append)
  have b: "mset xs = mset (take i xs) + add_mset (xs ! i) (mset (drop (Suc i) xs))"
    using assms by (metis Cons_nth_drop_Suc append_take_drop_id mset.simps(2) mset_append)
  from a b mset_swap_remove[OF assms] take_swap_remove[OF assms]
  have "mset (take i xs) + mset (drop i (swap_remove i xs)) =
        mset (take i xs) + mset (drop (Suc i) xs)"
    by simp
  then show ?thesis by simp
qed

lemma fold_activated:
  "fold (\<lambda>monster_value activated.
             let monster = snd monster_value;
                 square_distance =
                   SquareLength2 (sub2 (xy (Position monster)) (xy (mine_pos mine))) in
             if square_distance > 8 * 8 then activated
             else
               let activation_distance = mines_activation_radius gc + monster_radius gc gr monster in
               if square_distance < activation_distance * activation_distance then True
               else activated) ms b
   \<longleftrightarrow> b \<or> (\<exists>mv \<in> set ms.
          SquareLength2 (sub2 (xy (Position (snd mv))) (xy (mine_pos mine))) \<le> 64 \<and>
          SquareLength2 (sub2 (xy (Position (snd mv))) (xy (mine_pos mine)))
            < (mines_activation_radius gc + monster_radius gc gr (snd mv)) *
              (mines_activation_radius gc + monster_radius gc gr (snd mv)))"
  by (induction ms arbitrary: b) (auto simp: Let_def)

lemma SquareLength2_nonneg [simp]: "0 \<le> SquareLength2 v"
  by (simp add: SquareLength2_def)

lemma sqrt_less_iff_square:
  assumes "0 \<le> a" and "0 \<le> x"
  shows "sqrt x < a \<longleftrightarrow> x < a * a"
proof -
  have "sqrt x < a \<longleftrightarrow> sqrt x < sqrt (a * a)" using assms by simp
  also have "\<dots> \<longleftrightarrow> x < a * a" by (rule real_sqrt_less_iff)
  finally show ?thesis .
qed

lemma mine_need_kill_due:
  assumes "\<forall>mv \<in> set ms. 0 \<le> mines_activation_radius gc + monster_radius gc gr (snd mv) \<and>
                          mines_activation_radius gc + monster_radius gc gr (snd mv) \<le> 8"
  shows "mine_need_kill gc gr t ms mine = mine_due gc gr t ms mine"
proof -
  have "(SquareLength2 (sub2 (xy (Position (snd mv))) (xy (mine_pos mine))) \<le> 64 \<and>
          SquareLength2 (sub2 (xy (Position (snd mv))) (xy (mine_pos mine)))
            < (mines_activation_radius gc + monster_radius gc gr (snd mv)) *
              (mines_activation_radius gc + monster_radius gc gr (snd mv)))
        \<longleftrightarrow> Length2 (sub2 (xy (Position (snd mv))) (xy (mine_pos mine)))
              < mines_activation_radius gc + monster_radius gc gr (snd mv)"
    if mv: "mv \<in> set ms" for mv
  proof -
    let ?a = "mines_activation_radius gc + monster_radius gc gr (snd mv)"
    let ?x = "SquareLength2 (sub2 (xy (Position (snd mv))) (xy (mine_pos mine)))"
    from assms mv have a: "0 \<le> ?a" "?a \<le> 8" by auto
    then have "?a * ?a \<le> 8 * 8" by (intro mult_mono) auto
    then have "?x < ?a * ?a \<Longrightarrow> ?x \<le> 64" by simp
    moreover have "sqrt ?x < ?a \<longleftrightarrow> ?x < ?a * ?a"
      by (rule sqrt_less_iff_square[OF a(1)]) simp
    ultimately show ?thesis by (auto simp: Length2_def)
  qed
  note eq = this
  have act: "mine_activated gc gr ms mine \<longleftrightarrow> (\<exists>mv \<in> set ms.
          SquareLength2 (sub2 (xy (Position (snd mv))) (xy (mine_pos mine))) \<le> 64 \<and>
          SquareLength2 (sub2 (xy (Position (snd mv))) (xy (mine_pos mine)))
            < (mines_activation_radius gc + monster_radius gc gr (snd mv)) *
              (mines_activation_radius gc + monster_radius gc gr (snd mv)))"
    unfolding mine_activated_def fold_activated by simp
  have "mine_activated gc gr ms mine \<longleftrightarrow> (\<exists>mv \<in> set ms.
          Length2 (sub2 (xy (Position (snd mv))) (xy (mine_pos mine)))
              < mines_activation_radius gc + monster_radius gc gr (snd mv))"
    unfolding act using eq by blast
  then show ?thesis
    by (auto simp: mine_need_kill_def mine_due_def Let_def)
qed

lemma mine_explode_fields [simp]:
  "monsters (mine_explode mine m) = monsters m"
  "mines (mine_explode mine m) = mines m"
  "dynamic_items_death_messages (mine_explode mine m) = dynamic_items_death_messages m"
  "particles_effects_messages (mine_explode mine m) =
     particles_effects_messages m @ [ParticleEffectBirth Explosion (mine_pos mine)]"
  "map_events_sounds_messages (mine_explode mine m) =
     map_events_sounds_messages m @ [MapEventSound (mine_pos mine) (SoundNumber 40)]"
  by (simp_all add: mine_explode_def PlayMapEventSound_def)

lemma Tick_mines_loop_result:
  "monsters (Tick_mines_loop gc gr t i m) = monsters m \<and>
   mset (mines (Tick_mines_loop gc gr t i m)) =
     mset (take i (mines m)) +
     filter_mset (\<lambda>x. \<not> mine_need_kill gc gr t (monsters m) x) (mset (drop i (mines m))) \<and>
   mset (dynamic_items_death_messages (Tick_mines_loop gc gr t i m)) =
     mset (dynamic_items_death_messages m) +
     image_mset (\<lambda>x. DynamicItemDeath (mine_id x))
       (filter_mset (mine_need_kill gc gr t (monsters m)) (mset (drop i (mines m)))) \<and>
   mset (particles_effects_messages (Tick_mines_loop gc gr t i m)) =
     mset (particles_effects_messages m) +
     image_mset (\<lambda>x. ParticleEffectBirth Explosion (mine_pos x))
       (filter_mset (\<lambda>x. mine_need_kill gc gr t (monsters m) x \<and> \<not> t - planting_time x > 30)
          (mset (drop i (mines m)))) \<and>
   mset (map_events_sounds_messages (Tick_mines_loop gc gr t i m)) =
     mset (map_events_sounds_messages m) +
     image_mset (\<lambda>x. MapEventSound (mine_pos x) (SoundNumber 40))
       (filter_mset (\<lambda>x. mine_need_kill gc gr t (monsters m) x \<and> \<not> t - planting_time x > 30)
          (mset (drop i (mines m))))"
proof (induction gc gr t i m rule: Tick_mines_loop.induct)
  case (1 gc gr t i m)
  show ?case
  proof (cases "i < length (mines m)")
    case False
    then show ?thesis by (simp add: Tick_mines_loop.simps[of gc gr t i m])
  next
    case i: True
    let ?mine = "mines m ! i"
    have d: "drop i (mines m) = ?mine # drop (Suc i) (mines m)"
      using i by (simp add: Cons_nth_drop_Suc)
    show ?thesis
    proof (cases "mine_need_kill gc gr t (monsters m) ?mine")
      case kill: True
      let ?m2 = "(if t - planting_time ?mine > 30 then m else mine_explode ?mine m)
               \<lparr>dynamic_items_death_messages :=
                  dynamic_items_death_messages m @ [DynamicItemDeath (mine_id ?mine)],
                mines := swap_remove i (mines m)\<rparr>"
      have step: "Tick_mines_loop gc gr t i m = Tick_mines_loop gc gr t i ?m2"
        using i kill by (simp add: Tick_mines_loop.simps[of gc gr t i m] Let_def)
      have f: "monsters ?m2 = monsters m" "mines ?m2 = swap_remove i (mines m)"
        "dynamic_items_death_messages ?m2 =
           dynamic_items_death_messages m @ [DynamicItemDeath (mine_id ?mine)]"
        "particles_effects_messages ?m2 =
           (if t - planting_time ?mine > 30 then particles_effects_messages m
            else particles_effects_messages m @ [ParticleEffectBirth Explosion (mine_pos ?mine)])"
        "map_events_sounds_messages ?m2 =
           (if t - planting_time ?mine > 30 then map_events_sounds_messages m
            else map_events_sounds_messages m @ [MapEventSound (mine_pos ?mine) (SoundNumber 40)])"
        by simp_all
      note IH = "1.IH"(1)[OF i refl refl kill]
      show ?thesis
        unfolding step
        using IH kill
        by (simp add: f take_swap_remove[OF i] mset_drop_swap_remove[OF i] d)
    next
      case keep: False
      have step: "Tick_mines_loop gc gr t i m = Tick_mines_loop gc gr t (i + 1) m"
        using i keep by (simp add: Tick_mines_loop.simps[of gc gr t i m] Let_def)
      note IH = "1.IH"(2)[OF i refl refl keep]
      have t: "take (Suc i) (mines m) = take i (mines m) @ [?mine]"
        using i by (simp add: take_Suc_conv_app_nth)
      show ?thesis
        unfolding step
        using IH keep by (simp add: d t)
    qed
  qed
qed


lemma sqrt_25: "sqrt 25 = 5"
  using real_sqrt_unique[of 5 25] by simp


section \<open>Monsters against monsters\<close>

text \<open>
  C1 (as amended). For a pair of live entities within the distance cutoff whose circles
  interpenetrate and whose vertical extents overlap, the body of the inner loop moves them
  apart along the connecting axis: when one is a player and the other a monster, the player
  takes the whole correction and the monster's position is left as it was; otherwise each
  takes half of it.
\<close>
theorem collide_together_shares:
  assumes "0 < Health second_monster"
    and "SquareLength2 (sub2 (xy (Position first_monster)) (xy (Position second_monster))) \<le> 8 * 8"
    and "SquareLength2 (sub2 (xy (Position first_monster)) (xy (Position second_monster)))
         \<le> (monsters_w_radius gr (MonsterId second_monster) +
             monsters_w_radius gr (MonsterId first_monster)) *
            (monsters_w_radius gr (MonsterId second_monster) +
             monsters_w_radius gr (MonsterId first_monster))"
    and "x2 (GetZMinMax second_monster) + z3 (Position second_monster)
         \<le> y2 (GetZMinMax first_monster) + z3 (Position first_monster)"
    and "x2 (GetZMinMax first_monster) + z3 (Position first_monster)
         \<le> y2 (GetZMinMax second_monster) + z3 (Position second_monster)"
  shows "\<exists>first' second'.
     collide_together gr (monsters_w_radius gr (MonsterId first_monster))
       (add2 (GetZMinMax first_monster)
          (m_Vec2 (z3 (Position first_monster)) (z3 (Position first_monster))))
       first_monster second_monster = Some (first', second') \<and>
     (let correction =
            scale2 (Normalize2 (sub2 (xy (Position second_monster)) (xy (Position first_monster))))
              (monsters_w_radius gr (MonsterId second_monster) +
               monsters_w_radius gr (MonsterId first_monster) -
               sqrt (SquareLength2 (sub2 (xy (Position first_monster)) (xy (Position second_monster)))))
      in
      if MonsterId first_monster = 0 \<and> MonsterId second_monster \<noteq> 0 then
        Position second' = Position second_monster \<and>
        Position first' = Vec3_of (sub2 (xy (Position first_monster)) correction)
                            (z3 (Position first_monster))
      else if MonsterId first_monster \<noteq> 0 \<and> MonsterId second_monster = 0 then
        Position first' = Position first_monster \<and>
        Position second' = Vec3_of (add2 (xy (Position second_monster)) correction)
                             (z3 (Position second_monster))
      else
        Position first' = Vec3_of (sub2 (xy (Position first_monster)) (scale2 correction (1 / 2)))
                            (z3 (Position first_monster)) \<and>
        Position second' = Vec3_of (add2 (xy (Position second_monster)) (scale2 correction (1 / 2)))
                             (z3 (Position second_monster)))"
  using assms
  by (cases "Position first_monster"; cases "Position second_monster")
     (simp add: collide_together_def Let_def add2_def sub2_def scale2_def Vec3_of_def xy_def)

text \<open>Two monsters one unit apart, both of radius 1, each moved by half a unit.\<close>

theorem collide_together_shares_witness:
  "collide_together example_resources 1 (m_Vec2 0 1)
     (example_entity 1 (m_Vec3 0 0 0)) (example_entity 2 (m_Vec3 1 0 0))
   = Some (example_entity 1 (m_Vec3 (- 1 / 2) 0 0), example_entity 2 (m_Vec3 (3 / 2) 0 0))"
proof -
  let ?a = "example_entity 1 (m_Vec3 0 0 0)" and ?b = "example_entity 2 (m_Vec3 1 0 0)"
  have h: "0 < Health ?b"
    "SquareLength2 (sub2 (xy (Position ?a)) (xy (Position ?b))) \<le> 8 * 8"
    "SquareLength2 (sub2 (xy (Position ?a)) (xy (Position ?b)))
         \<le> (monsters_w_radius example_resources (MonsterId ?b) +
             monsters_w_radius example_resources (MonsterId ?a)) *
            (monsters_w_radius example_resources (MonsterId ?b) +
             monsters_w_radius example_resources (MonsterId ?a))"
    "x2 (GetZMinMax ?b) + z3 (Position ?b) \<le> y2 (GetZMinMax ?a) + z3 (Position ?a)"
    "x2 (GetZMinMax ?a) + z3 (Position ?a) \<le> y2 (GetZMinMax ?b) + z3 (Position ?b)"
    by (simp_all add: example_entity_def example_resources_def SquareLength2_def sub2_def xy_def)
  from collide_together_shares[OF h] obtain first' second' where
    r: "collide_together example_resources 1 (m_Vec2 0 1) ?a ?b = Some (first', second')"
    by (auto simp: example_entity_def example_resources_def add2_def)
  have "collide_together example_resources 1 (m_Vec2 0 1) ?a ?b
    = Some (example_entity 1 (m_Vec3 (- 1 / 2) 0 0), example_entity 2 (m_Vec3 (3 / 2) 0 0))"
    by (simp add: collide_together_def Let_def example_entity_def example_resources_def
        SquareLength2_def sub2_def add2_def scale2_def xy_def Vec3_of_def Normalize2_def Length2_def)
  with r show ?thesis by simp
qed

text \<open>
  A player at the origin and a monster one unit away, both of radius 1: in either order of
  the pair the player is moved by the whole correction and the monster stays.
\<close>

theorem player_absorbs_correction_counterexample:
  "MonsterId (example_entity 0 (m_Vec3 0 0 0)) = 0 \<and>
   MonsterId (example_entity 1 (m_Vec3 1 0 0)) \<noteq> 0 \<and>
   collide_together example_resources 1 (m_Vec2 0 1)
     (example_entity 0 (m_Vec3 0 0 0)) (example_entity 1 (m_Vec3 1 0 0))
   = Some (example_entity 0 (m_Vec3 (- 1) 0 0), example_entity 1 (m_Vec3 1 0 0)) \<and>
   collide_together example_resources 1 (m_Vec2 0 1)
     (example_entity 1 (m_Vec3 1 0 0)) (example_entity 0 (m_Vec3 0 0 0))
   = Some (example_entity 1 (m_Vec3 1 0 0), example_entity 0 (m_Vec3 (- 1) 0 0))"
  by (simp add: collide_together_def Let_def example_entity_def example_resources_def
      SquareLength2_def sub2_def add2_def scale2_def xy_def Vec3_of_def Normalize2_def Length2_def)

end
